theory Spec2Isabelle
  imports Main
begin

section \<open>Event records\<close>

text \<open>
  The event structs of the browser session log. Go's \<open>int\<close> is modelled as \<open>int\<close>,
  \<open>time.Time\<close> as a number of seconds. A pointer that the code compares with \<open>nil\<close>
  (\<open>Initiator\<close>, \<open>StackTrace\<close>, \<open>Parent\<close>) is an \<open>option\<close>. The pointers
  \<open>Request\<close> and \<open>PolicyState\<close> are dereferenced without a test: every handler fills
  them from \<open>NewNetworkRequest\<close> and \<open>Policy.State\<close>, which always return a fresh
  struct, so they are plain values here. Slices of pointers are lists of values.
\<close>

record NetworkRequest =
  URL :: string
  Method :: string
  HasPostData :: bool
  IsLinkPreload :: bool

record CallFrame =
  FunctionName :: string
  ScriptId :: string
  URL :: string
  LineNumber :: int
  ColumnNumber :: int

datatype StackTrace =
  MkStackTrace (Description: string) (CallFrames: "CallFrame list")
    (Parent: "StackTrace option") (ParentId: string)

record Initiator =
  Type :: string
  StackTrace :: "StackTrace option"
  URL :: string
  LineNumber :: int

record RemoteScript =
  ScriptId :: string
  URL :: string

record InlineScript =
  ScriptId :: string
  Hash :: string

record TrustGroupState =
  Trusted :: bool
  RemoteScripts :: "RemoteScript list"
  InlineScripts :: "InlineScript list"

record PolicyState =
  PolicyId :: string
  TrustGroups :: "TrustGroupState list"

record NetworkRequestInterceptedEvent =
  EventId :: int
  Timestamp :: int
  EventType :: string
  PolicyId :: string
  TargetId :: string
  FrameId :: string
  ResourceType :: string
  IsNavigationRequest :: bool
  RedirectURL :: string
  Request :: NetworkRequest
  PolicyState :: PolicyState

record NetworkRequestWillBeSentEvent =
  EventId :: int
  Timestamp :: int
  EventType :: string
  PolicyId :: string
  TargetId :: string
  Initiator :: "Initiator option"
  LoaderId :: string
  FrameId :: string
  HasUserGesture :: bool
  ResourceType :: string
  DocumentURL :: string
  Request :: NetworkRequest
  PolicyState :: PolicyState

record APIAccessEvent =
  EventId :: int
  Timestamp :: int
  EventType :: string
  PolicyId :: string
  TargetId :: string
  APIName :: string
  ScriptIdStack :: "string list"
  PolicyState :: PolicyState

record DebuggerScriptParsedEvent =
  EventId :: int
  Timestamp :: int
  EventType :: string
  PolicyId :: string
  TargetId :: string
  ScriptId :: string
  URL :: string
  Hash :: string
  StackTrace :: "StackTrace option"

record PageLifecycleEvent =
  EventId :: int
  Timestamp :: int
  EventType :: string
  PolicyId :: string
  TargetId :: string
  FrameId :: string
  LoaderId :: string
  Name :: string
  PolicyState :: PolicyState

text \<open>
  The log is a slice of \<open>interface{}\<close>: a value in it is one of the five event
  pointers, or a value of some other dynamic type (\<open>OtherValue\<close>).
\<close>

datatype logged =
  NetworkRequestIntercepted NetworkRequestInterceptedEvent
| NetworkRequestWillBeSent NetworkRequestWillBeSentEvent
| APIAccess APIAccessEvent
| DebuggerScriptParsed DebuggerScriptParsedEvent
| PageLifecycle PageLifecycleEvent
| OtherValue

section \<open>Trust lookup on a policy snapshot\<close>

fun GetRemoteScript :: "TrustGroupState \<Rightarrow> string \<Rightarrow> RemoteScript option" where
  "GetRemoteScript s scriptId =
     find (\<lambda>rs. RemoteScript.ScriptId rs = scriptId) (TrustGroupState.RemoteScripts s)"

fun GetInlineScript :: "TrustGroupState \<Rightarrow> string \<Rightarrow> InlineScript option" where
  "GetInlineScript s scriptId =
     find (\<lambda>is. InlineScript.ScriptId is = scriptId) (TrustGroupState.InlineScripts s)"

fun firstGroupState :: "TrustGroupState list \<Rightarrow> string \<Rightarrow> TrustGroupState option" where
  "firstGroupState [] scriptId = None"
| "firstGroupState (tgs # rest) scriptId =
     (if GetRemoteScript tgs scriptId \<noteq> None \<or> GetInlineScript tgs scriptId \<noteq> None
      then Some tgs else firstGroupState rest scriptId)"

definition TrustGroupStateForScriptId :: "PolicyState \<Rightarrow> string \<Rightarrow> TrustGroupState option" where
  "TrustGroupStateForScriptId s scriptId = firstGroupState (TrustGroups s) scriptId"

fun StackIsTrusted :: "PolicyState \<Rightarrow> string list \<Rightarrow> bool" where
  "StackIsTrusted s [] = True"
| "StackIsTrusted s (scriptId # rest) =
     (case TrustGroupStateForScriptId s scriptId of
        None \<Rightarrow> False
      | Some tgs \<Rightarrow> if \<not> TrustGroupState.Trusted tgs then False else StackIsTrusted s rest)"

section \<open>The session's log\<close>

text \<open>
  The fields of \<open>ChromeClient\<close> that hold data. The connection, the channels, the
  \<open>sync.Once\<close> and the map of targets are left out: the functions below do not
  read them.
\<close>

record ChromeClient =
  runDir :: string
  policyType :: int
  eventLog :: "logged list"
  nextEventId :: int
  policyIds :: "string list"
  instrumentationScript :: string
  watchedTargets :: "string list"
  logsDir :: string

datatype fault = LogPanic | IndexOutOfRange | TypeAssertion

text \<open>Go's \<open>int\<close> on a 64-bit platform: \<open>+= 1\<close> wraps at \<open>2^63\<close>.\<close>

definition wrapInt :: "int \<Rightarrow> int" where
  "wrapInt x = (x + 2 ^ 63) mod 2 ^ 64 - 2 ^ 63"

fun assignEventId :: "logged \<Rightarrow> int \<Rightarrow> fault + logged" where
  "assignEventId (NetworkRequestIntercepted v) n =
     Inr (NetworkRequestIntercepted (v\<lparr>NetworkRequestInterceptedEvent.EventId := n\<rparr>))"
| "assignEventId (NetworkRequestWillBeSent v) n =
     Inr (NetworkRequestWillBeSent (v\<lparr>NetworkRequestWillBeSentEvent.EventId := n\<rparr>))"
| "assignEventId (APIAccess v) n =
     Inr (APIAccess (v\<lparr>APIAccessEvent.EventId := n\<rparr>))"
| "assignEventId (DebuggerScriptParsed v) n =
     Inr (DebuggerScriptParsed (v\<lparr>DebuggerScriptParsedEvent.EventId := n\<rparr>))"
| "assignEventId (PageLifecycle v) n =
     Inr (PageLifecycle (v\<lparr>PageLifecycleEvent.EventId := n\<rparr>))"
| "assignEventId OtherValue n = Inl LogPanic"

definition LogEvent :: "ChromeClient \<Rightarrow> logged \<Rightarrow> fault + ChromeClient" where
  "LogEvent cc e =
     (case assignEventId e (nextEventId cc) of
        Inl f \<Rightarrow> Inl f
      | Inr e' \<Rightarrow> Inr (cc\<lparr>eventLog := eventLog cc @ [e'],
                         nextEventId := wrapInt (nextEventId cc + 1)\<rparr>))"

text \<open>
  A session is a sequence of \<open>LogEvent\<close> calls under the client's lock. A call that
  panics is recovered at the callback boundary and leaves the client as it was.
\<close>

fun LogEvents :: "ChromeClient \<Rightarrow> logged list \<Rightarrow> ChromeClient" where
  "LogEvents cc [] = cc"
| "LogEvents cc (e # es) =
     (case LogEvent cc e of Inl f \<Rightarrow> LogEvents cc es | Inr cc' \<Rightarrow> LogEvents cc' es)"

fun eventIdOf :: "logged \<Rightarrow> int option" where
  "eventIdOf (NetworkRequestIntercepted v) = Some (NetworkRequestInterceptedEvent.EventId v)"
| "eventIdOf (NetworkRequestWillBeSent v) = Some (NetworkRequestWillBeSentEvent.EventId v)"
| "eventIdOf (APIAccess v) = Some (APIAccessEvent.EventId v)"
| "eventIdOf (DebuggerScriptParsed v) = Some (DebuggerScriptParsedEvent.EventId v)"
| "eventIdOf (PageLifecycle v) = Some (PageLifecycleEvent.EventId v)"
| "eventIdOf OtherValue = None"

fun NetworkRequestWillBeSentLogs_loop ::
  "logged list \<Rightarrow> string \<Rightarrow> NetworkRequestWillBeSentEvent list" where
  "NetworkRequestWillBeSentLogs_loop [] policyId = []"
| "NetworkRequestWillBeSentLogs_loop (NetworkRequestWillBeSent c # es) policyId =
     (if NetworkRequestWillBeSentEvent.PolicyId c = policyId
      then c # NetworkRequestWillBeSentLogs_loop es policyId
      else NetworkRequestWillBeSentLogs_loop es policyId)"
| "NetworkRequestWillBeSentLogs_loop (e # es) policyId =
     NetworkRequestWillBeSentLogs_loop es policyId"

definition NetworkRequestWillBeSentLogs ::
  "ChromeClient \<Rightarrow> string \<Rightarrow> NetworkRequestWillBeSentEvent list" where
  "NetworkRequestWillBeSentLogs cc policyId =
     NetworkRequestWillBeSentLogs_loop (eventLog cc) policyId"

fun APIAccessLogs_loop :: "logged list \<Rightarrow> string \<Rightarrow> APIAccessEvent list" where
  "APIAccessLogs_loop [] policyId = []"
| "APIAccessLogs_loop (APIAccess c # es) policyId =
     (if APIAccessEvent.PolicyId c = policyId
      then c # APIAccessLogs_loop es policyId
      else APIAccessLogs_loop es policyId)"
| "APIAccessLogs_loop (e # es) policyId = APIAccessLogs_loop es policyId"

definition APIAccessLogs :: "ChromeClient \<Rightarrow> string \<Rightarrow> APIAccessEvent list" where
  "APIAccessLogs cc policyId = APIAccessLogs_loop (eventLog cc) policyId"

section \<open>The analyzer\<close>

record PolicyAnalysis =
  PolicyId :: string
  Description :: string
  PolicyViolated :: bool
  TaintingAPIName :: string
  ReqResourceType :: string
  ReqURL :: string
  ReqInitiator :: string
  ReqStackScripts :: "string list"

text \<open>\<open>strings.HasPrefix\<close>.\<close>

definition HasPrefix :: "string \<Rightarrow> string \<Rightarrow> bool" where
  "HasPrefix s pre = (length s \<ge> length pre \<and> take (length pre) s = pre)"

text \<open>The first loop over \<open>apiLogs\<close>: the tainting event, if there is one.\<close>

fun taintingLoop :: "APIAccessEvent list \<Rightarrow> APIAccessEvent option" where
  "taintingLoop [] = None"
| "taintingLoop (e # es) =
     (if HasPrefix (APIName e) ''exfiltration_'' then taintingLoop es
      else if StackIsTrusted (APIAccessEvent.PolicyState e) (ScriptIdStack e) then taintingLoop es
      else Some e)"

text \<open>
  The call frames a request is judged by: those of the initiator's stack trace, or
  those of its parent when the trace has none and has a parent.
\<close>

definition initiatorFrames :: "StackTrace \<Rightarrow> CallFrame list" where
  "initiatorFrames st =
     (case Parent st of
        None \<Rightarrow> CallFrames st
      | Some parent \<Rightarrow> if length (CallFrames st) = 0 then CallFrames parent else CallFrames st)"

text \<open>
  The frame loop of the primary check, on the pair \<open>(stackTrusted, reqStackScripts)\<close>.
  A script id with no trust group is only logged.
\<close>

fun primaryFrames ::
  "PolicyState \<Rightarrow> CallFrame list \<Rightarrow> bool \<times> string list \<Rightarrow> bool \<times> string list" where
  "primaryFrames ps [] acc = acc"
| "primaryFrames ps (cf # cfv) (stackTrusted, reqStackScripts) =
     primaryFrames ps cfv
       ((case TrustGroupStateForScriptId ps (CallFrame.ScriptId cf) of
           Some tgs \<Rightarrow> stackTrusted \<and> TrustGroupState.Trusted tgs
         | None \<Rightarrow> stackTrusted),
        reqStackScripts @ [CallFrame.ScriptId cf])"

text \<open>
  The loops of the three checks act on the pair \<open>(exfiltrationEventId, pa)\<close>;
  \<open>continue\<close> is the recursive call and \<open>break\<close> returns.
\<close>

fun primaryLoop ::
  "int \<Rightarrow> NetworkRequestWillBeSentEvent list \<Rightarrow> int \<times> PolicyAnalysis \<Rightarrow> int \<times> PolicyAnalysis" where
  "primaryLoop taintId [] acc = acc"
| "primaryLoop taintId (e # es) (exfiltrationEventId, pa) =
     (case Initiator e of
        None \<Rightarrow> primaryLoop taintId es (exfiltrationEventId, pa)
      | Some ini \<Rightarrow>
         (case Initiator.StackTrace ini of
            None \<Rightarrow> primaryLoop taintId es (exfiltrationEventId, pa)
          | Some st \<Rightarrow>
             if NetworkRequestWillBeSentEvent.EventId e > taintId then
               (case primaryFrames (NetworkRequestWillBeSentEvent.PolicyState e)
                       (initiatorFrames st) (True, []) of
                  (stackTrusted, reqStackScripts) \<Rightarrow>
                    if stackTrusted then primaryLoop taintId es (exfiltrationEventId, pa)
                    else (NetworkRequestWillBeSentEvent.EventId e,
                          pa\<lparr>PolicyViolated := True,
                             ReqInitiator := Initiator.Type ini,
                             ReqResourceType := NetworkRequestWillBeSentEvent.ResourceType e,
                             ReqURL := NetworkRequest.URL (NetworkRequestWillBeSentEvent.Request e),
                             ReqStackScripts := reqStackScripts\<rparr>))
             else primaryLoop taintId es (exfiltrationEventId, pa)))"

fun probeLoop ::
  "int \<Rightarrow> APIAccessEvent list \<Rightarrow> int \<times> PolicyAnalysis \<Rightarrow> int \<times> PolicyAnalysis" where
  "probeLoop taintId [] acc = acc"
| "probeLoop taintId (e # es) (exfiltrationEventId, pa) =
     (if \<not> HasPrefix (APIName e) ''exfiltration_'' then
        probeLoop taintId es (exfiltrationEventId, pa)
      else if StackIsTrusted (APIAccessEvent.PolicyState e) (ScriptIdStack e) then
        probeLoop taintId es (exfiltrationEventId, pa)
      else if APIAccessEvent.EventId e > taintId
              \<and> (\<not> PolicyViolated pa \<or> APIAccessEvent.EventId e < exfiltrationEventId) then
        (APIAccessEvent.EventId e,
         pa\<lparr>PolicyViolated := True,
            ReqResourceType := ''Document'',
            ReqInitiator := ''script'',
            ReqStackScripts := ScriptIdStack e\<rparr>)
      else probeLoop taintId es (exfiltrationEventId, pa))"

text \<open>
  The frame loop of the cross-target check: here a script id with no trust group
  makes the stack untrusted.
\<close>

fun crossFrames ::
  "PolicyState \<Rightarrow> CallFrame list \<Rightarrow> bool \<times> string list \<Rightarrow> bool \<times> string list" where
  "crossFrames ps [] acc = acc"
| "crossFrames ps (cf # cfv) (stackTrusted, reqStackScripts) =
     crossFrames ps cfv
       ((case TrustGroupStateForScriptId ps (CallFrame.ScriptId cf) of
           Some tgs \<Rightarrow> stackTrusted \<and> TrustGroupState.Trusted tgs
         | None \<Rightarrow> False),
        reqStackScripts @ [CallFrame.ScriptId cf])"

fun crossLoop ::
  "ChromeClient \<Rightarrow> APIAccessEvent list \<Rightarrow> int \<Rightarrow> string list \<Rightarrow>
     int \<times> PolicyAnalysis \<Rightarrow> int \<times> PolicyAnalysis" where
  "crossLoop cc apiLogs taintId [] acc = acc"
| "crossLoop cc apiLogs taintId (otherPid # pids) (exfiltrationEventId, pa) =
     (case NetworkRequestWillBeSentLogs cc otherPid of
        [] \<Rightarrow> crossLoop cc apiLogs taintId pids (exfiltrationEventId, pa)
      | e # others \<Rightarrow>
         (case Initiator e of
            None \<Rightarrow> crossLoop cc apiLogs taintId pids (exfiltrationEventId, pa)
          | Some ini \<Rightarrow>
             (case Initiator.StackTrace ini of
                None \<Rightarrow> crossLoop cc apiLogs taintId pids (exfiltrationEventId, pa)
              | Some st \<Rightarrow>
                 if NetworkRequestWillBeSentEvent.EventId e > taintId
                    \<and> (\<not> PolicyViolated pa
                        \<or> NetworkRequestWillBeSentEvent.EventId e < exfiltrationEventId) then
                   (case (if length apiLogs > 0
                          then crossFrames (APIAccessEvent.PolicyState (last apiLogs))
                                 (initiatorFrames st) (True, [])
                          else (True, [])) of
                      (stackTrusted, reqStackScripts) \<Rightarrow>
                        if stackTrusted then
                          crossLoop cc apiLogs taintId pids (exfiltrationEventId, pa)
                        else (NetworkRequestWillBeSentEvent.EventId e,
                              pa\<lparr>PolicyViolated := True,
                                 ReqResourceType := NetworkRequestWillBeSentEvent.ResourceType e,
                                 ReqInitiator := Initiator.Type ini,
                                 ReqURL := NetworkRequest.URL
                                            (NetworkRequestWillBeSentEvent.Request e),
                                 ReqStackScripts := reqStackScripts\<rparr>))
                 else crossLoop cc apiLogs taintId pids (exfiltrationEventId, pa))))"

definition emptyAnalysis :: "string \<Rightarrow> PolicyAnalysis" where
  "emptyAnalysis pid =
     \<lparr>PolicyAnalysis.PolicyId = pid, Description = [], PolicyViolated = False,
      TaintingAPIName = [], ReqResourceType = [], ReqURL = [], ReqInitiator = [],
      ReqStackScripts = []\<rparr>"

definition AnalyzePolicy :: "ChromeClient \<Rightarrow> string \<Rightarrow> PolicyAnalysis" where
  "AnalyzePolicy cc pid =
     (case NetworkRequestWillBeSentLogs cc pid of
        [] \<Rightarrow> emptyAnalysis pid
      | first # others \<Rightarrow>
         (case taintingLoop (APIAccessLogs cc pid) of
            None \<Rightarrow> (emptyAnalysis pid)\<lparr>Description := DocumentURL first\<rparr>
          | Some taintingEvent \<Rightarrow>
              snd (crossLoop cc (APIAccessLogs cc pid) (APIAccessEvent.EventId taintingEvent)
                     (policyIds cc)
                     (probeLoop (APIAccessEvent.EventId taintingEvent) (APIAccessLogs cc pid)
                        (primaryLoop (APIAccessEvent.EventId taintingEvent)
                           (NetworkRequestWillBeSentLogs cc pid)
                           (0, (emptyAnalysis pid)\<lparr>Description := DocumentURL first,
                                  TaintingAPIName := APIName taintingEvent\<rparr>))))))"

section \<open>The conditions of the three checks\<close>

text \<open>
  What each check of the analyzer asks of one event, written as a predicate, for
  the statements below. A frame is untrusted when its script id resolves to a group
  with \<open>Trusted = false\<close>; the primary check flags a request that has such a frame.
  The cross-target check asks for a stack that \<open>StackIsTrusted\<close> rejects.
\<close>

definition untrustedFrame :: "PolicyState \<Rightarrow> CallFrame \<Rightarrow> bool" where
  "untrustedFrame ps cf =
     (case TrustGroupStateForScriptId ps (CallFrame.ScriptId cf) of
        None \<Rightarrow> False
      | Some tgs \<Rightarrow> \<not> TrustGroupState.Trusted tgs)"

definition primaryViolation :: "int \<Rightarrow> NetworkRequestWillBeSentEvent \<Rightarrow> bool" where
  "primaryViolation taintId e =
     (case Initiator e of
        None \<Rightarrow> False
      | Some ini \<Rightarrow>
         (case Initiator.StackTrace ini of
            None \<Rightarrow> False
          | Some st \<Rightarrow>
              NetworkRequestWillBeSentEvent.EventId e > taintId
              \<and> list_ex (untrustedFrame (NetworkRequestWillBeSentEvent.PolicyState e))
                    (initiatorFrames st)))"

definition probeViolation :: "int \<Rightarrow> int \<times> PolicyAnalysis \<Rightarrow> APIAccessEvent \<Rightarrow> bool" where
  "probeViolation taintId acc e =
     (HasPrefix (APIName e) ''exfiltration_''
      \<and> \<not> StackIsTrusted (APIAccessEvent.PolicyState e) (ScriptIdStack e)
      \<and> APIAccessEvent.EventId e > taintId
      \<and> (\<not> PolicyViolated (snd acc) \<or> APIAccessEvent.EventId e < fst acc))"

definition crossViolation ::
  "ChromeClient \<Rightarrow> APIAccessEvent list \<Rightarrow> int \<Rightarrow> int \<times> PolicyAnalysis \<Rightarrow> string \<Rightarrow> bool" where
  "crossViolation cc apiLogs taintId acc otherPid =
     (case NetworkRequestWillBeSentLogs cc otherPid of
        [] \<Rightarrow> False
      | e # others \<Rightarrow>
         (case Initiator e of
            None \<Rightarrow> False
          | Some ini \<Rightarrow>
             (case Initiator.StackTrace ini of
                None \<Rightarrow> False
              | Some st \<Rightarrow>
                  NetworkRequestWillBeSentEvent.EventId e > taintId
                  \<and> (\<not> PolicyViolated (snd acc)
                      \<or> NetworkRequestWillBeSentEvent.EventId e < fst acc)
                  \<and> apiLogs \<noteq> []
                  \<and> \<not> StackIsTrusted (APIAccessEvent.PolicyState (last apiLogs))
                        (map CallFrame.ScriptId (initiatorFrames st)))))"


section \<open>Script sets, trust groups and policies\<close>

text \<open>
  The three implementations of the \<open>ScriptSet\<close> interface, with their fields. The
  filter-list matcher is one object shared by the whole process and comes from a
  library: the functions below take it as the parameter \<open>matcher\<close>, which gives
  \<open>None\<close> when \<open>Match\<close> returns an error. \<open>url.Parse\<close> is the parameter
  \<open>parse\<close>, which gives the two fields that are read, or \<open>None\<close> on an error.
\<close>

datatype ScriptSet =
  UniversalScriptSet "RemoteScript list" "InlineScript list"
| HostnameScriptSet "string list" "RemoteScript list" "InlineScript list"
| FilterListScriptSet "string list" "RemoteScript list" "InlineScript list"

record ParsedURL =
  Scheme :: string
  Host :: string

fun AddRemoteScript :: "ScriptSet \<Rightarrow> string \<Rightarrow> string \<Rightarrow> ScriptSet" where
  "AddRemoteScript (UniversalScriptSet rs is) scriptId scriptURL =
     UniversalScriptSet (rs @ [\<lparr>RemoteScript.ScriptId = scriptId, URL = scriptURL\<rparr>]) is"
| "AddRemoteScript (HostnameScriptSet hostnames rs is) scriptId scriptURL =
     HostnameScriptSet hostnames (rs @ [\<lparr>RemoteScript.ScriptId = scriptId, URL = scriptURL\<rparr>]) is"
| "AddRemoteScript (FilterListScriptSet filters rs is) scriptId scriptURL =
     FilterListScriptSet filters (rs @ [\<lparr>RemoteScript.ScriptId = scriptId, URL = scriptURL\<rparr>]) is"

fun AddInlineScript :: "ScriptSet \<Rightarrow> string \<Rightarrow> string \<Rightarrow> ScriptSet" where
  "AddInlineScript (UniversalScriptSet rs is) scriptId hash =
     UniversalScriptSet rs (is @ [\<lparr>InlineScript.ScriptId = scriptId, Hash = hash\<rparr>])"
| "AddInlineScript (HostnameScriptSet hostnames rs is) scriptId hash =
     HostnameScriptSet hostnames rs (is @ [\<lparr>InlineScript.ScriptId = scriptId, Hash = hash\<rparr>])"
| "AddInlineScript (FilterListScriptSet filters rs is) scriptId hash =
     FilterListScriptSet filters rs (is @ [\<lparr>InlineScript.ScriptId = scriptId, Hash = hash\<rparr>])"

fun hostnameLoop :: "string list \<Rightarrow> string \<Rightarrow> bool" where
  "hostnameLoop [] origin = False"
| "hostnameLoop (h # hs) origin = (if h = origin then True else hostnameLoop hs origin)"

fun ContainsRemoteScript ::
  "(string \<Rightarrow> ParsedURL option) \<Rightarrow> (string \<Rightarrow> bool option) \<Rightarrow>
     ScriptSet \<Rightarrow> string \<Rightarrow> string \<Rightarrow> bool" where
  "ContainsRemoteScript parse matcher (UniversalScriptSet rs is) scriptId scriptURL = True"
| "ContainsRemoteScript parse matcher (HostnameScriptSet hostnames rs is) scriptId scriptURL =
     (case parse scriptURL of
        None \<Rightarrow> False
      | Some u \<Rightarrow> hostnameLoop hostnames (Scheme u @ ''://'' @ Host u))"
| "ContainsRemoteScript parse matcher (FilterListScriptSet filters rs is) scriptId scriptURL =
     (case matcher scriptURL of None \<Rightarrow> False | Some matched \<Rightarrow> matched)"

fun ContainsInlineScript :: "ScriptSet \<Rightarrow> string \<Rightarrow> string \<Rightarrow> bool" where
  "ContainsInlineScript (UniversalScriptSet rs is) scriptId hash = True"
| "ContainsInlineScript (HostnameScriptSet hostnames rs is) scriptId hash = True"
| "ContainsInlineScript (FilterListScriptSet filters rs is) scriptId hash = False"

fun RemoteScripts :: "ScriptSet \<Rightarrow> RemoteScript list" where
  "RemoteScripts (UniversalScriptSet rs is) = rs"
| "RemoteScripts (HostnameScriptSet hostnames rs is) = rs"
| "RemoteScripts (FilterListScriptSet filters rs is) = rs"

fun InlineScripts :: "ScriptSet \<Rightarrow> InlineScript list" where
  "InlineScripts (UniversalScriptSet rs is) = is"
| "InlineScripts (HostnameScriptSet hostnames rs is) = is"
| "InlineScripts (FilterListScriptSet filters rs is) = []"

record TrustGroup =
  ScriptSet :: ScriptSet
  Trusted :: bool
  Tainted :: bool

record Policy =
  Id :: string
  trustGroups :: "TrustGroup list"

text \<open>
  A \<open>*TrustGroup\<close> returned by a policy is the position of the group in
  \<open>trustGroups\<close>; \<open>nil\<close> is \<open>None\<close>.
\<close>

fun TrustGroupForScriptId_loop :: "TrustGroup list \<Rightarrow> string \<Rightarrow> nat option" where
  "TrustGroupForScriptId_loop [] scriptId = None"
| "TrustGroupForScriptId_loop (tg # tgs) scriptId =
     (if list_ex (\<lambda>s. RemoteScript.ScriptId s = scriptId) (RemoteScripts (TrustGroup.ScriptSet tg))
      then Some 0
      else if list_ex (\<lambda>s. InlineScript.ScriptId s = scriptId)
                (InlineScripts (TrustGroup.ScriptSet tg))
      then Some 0
      else map_option Suc (TrustGroupForScriptId_loop tgs scriptId))"

definition TrustGroupForScriptId :: "Policy \<Rightarrow> string \<Rightarrow> nat option" where
  "TrustGroupForScriptId p scriptId = TrustGroupForScriptId_loop (trustGroups p) scriptId"

text \<open>
  The loop over \<open>st.CallFrames\<close> that opens both registration functions: the group
  of the first frame whose script is registered in an untrusted group.
\<close>

fun stackLoop :: "Policy \<Rightarrow> CallFrame list \<Rightarrow> nat option" where
  "stackLoop p [] = None"
| "stackLoop p (cf # cfs) =
     (case TrustGroupForScriptId p (CallFrame.ScriptId cf) of
        None \<Rightarrow> stackLoop p cfs
      | Some i \<Rightarrow> if \<not> TrustGroup.Trusted (trustGroups p ! i) then Some i else stackLoop p cfs)"

definition stackGroup :: "Policy \<Rightarrow> StackTrace option \<Rightarrow> nat option" where
  "stackGroup p st = (case st of None \<Rightarrow> None | Some s \<Rightarrow> stackLoop p (CallFrames s))"

fun acceptingLoop :: "(ScriptSet \<Rightarrow> bool) \<Rightarrow> TrustGroup list \<Rightarrow> nat option" where
  "acceptingLoop contains [] = None"
| "acceptingLoop contains (tg # tgs) =
     (if contains (TrustGroup.ScriptSet tg) then Some 0
      else map_option Suc (acceptingLoop contains tgs))"

definition addRemoteAt :: "Policy \<Rightarrow> nat \<Rightarrow> string \<Rightarrow> string \<Rightarrow> Policy" where
  "addRemoteAt p i scriptId scriptURL =
     p\<lparr>trustGroups := (trustGroups p)
          [i := (trustGroups p ! i)\<lparr>TrustGroup.ScriptSet :=
                   AddRemoteScript (TrustGroup.ScriptSet (trustGroups p ! i)) scriptId scriptURL\<rparr>]\<rparr>"

definition addInlineAt :: "Policy \<Rightarrow> nat \<Rightarrow> string \<Rightarrow> string \<Rightarrow> Policy" where
  "addInlineAt p i scriptId hash =
     p\<lparr>trustGroups := (trustGroups p)
          [i := (trustGroups p ! i)\<lparr>TrustGroup.ScriptSet :=
                   AddInlineScript (TrustGroup.ScriptSet (trustGroups p ! i)) scriptId hash\<rparr>]\<rparr>"

definition RegisterRemoteScript ::
  "(string \<Rightarrow> ParsedURL option) \<Rightarrow> (string \<Rightarrow> bool option) \<Rightarrow>
     Policy \<Rightarrow> string \<Rightarrow> string \<Rightarrow> StackTrace option \<Rightarrow> nat option \<times> Policy" where
  "RegisterRemoteScript parse matcher p scriptId scriptURL st =
     (case stackGroup p st of
        Some i \<Rightarrow> (Some i, addRemoteAt p i scriptId scriptURL)
      | None \<Rightarrow>
         (case acceptingLoop (\<lambda>ss. ContainsRemoteScript parse matcher ss scriptId scriptURL)
                 (trustGroups p) of
            Some i \<Rightarrow> (Some i, addRemoteAt p i scriptId scriptURL)
          | None \<Rightarrow> (None, p)))"

definition RegisterInlineScript ::
  "Policy \<Rightarrow> string \<Rightarrow> string \<Rightarrow> StackTrace option \<Rightarrow> nat option \<times> Policy" where
  "RegisterInlineScript p scriptId hash st =
     (case stackGroup p st of
        Some i \<Rightarrow> (Some i, addInlineAt p i scriptId hash)
      | None \<Rightarrow>
         (case acceptingLoop (\<lambda>ss. ContainsInlineScript ss scriptId hash) (trustGroups p) of
            Some i \<Rightarrow> (Some i, addInlineAt p i scriptId hash)
          | None \<Rightarrow> (None, p)))"

definition State :: "Policy \<Rightarrow> PolicyState" where
  "State p =
     \<lparr>PolicyState.PolicyId = Policy.Id p,
      TrustGroups = map (\<lambda>tg. \<lparr>TrustGroupState.Trusted = TrustGroup.Trusted tg,
                               RemoteScripts = RemoteScripts (TrustGroup.ScriptSet tg),
                               InlineScripts = InlineScripts (TrustGroup.ScriptSet tg)\<rparr>)
                      (trustGroups p)\<rparr>"

text \<open>The policy id is random: it is the parameter \<open>newPolicyId\<close>.\<close>

definition NewHostnamePolicy :: "string \<Rightarrow> string list \<Rightarrow> Policy" where
  "NewHostnamePolicy newPolicyId hosts =
     \<lparr>Policy.Id = newPolicyId,
      trustGroups =
        [\<lparr>TrustGroup.ScriptSet = HostnameScriptSet hosts [] [], Trusted = True, Tainted = False\<rparr>,
         \<lparr>TrustGroup.ScriptSet = UniversalScriptSet [] [], Trusted = False, Tainted = False\<rparr>]\<rparr>"

text \<open>
  A frame inherits when its script id is registered in a group, the one that
  \<open>TrustGroupForScriptId\<close> returns, with \<open>Trusted = false\<close>.
\<close>

definition inheritingFrame :: "Policy \<Rightarrow> CallFrame \<Rightarrow> bool" where
  "inheritingFrame p cf =
     (case TrustGroupForScriptId p (CallFrame.ScriptId cf) of
        None \<Rightarrow> False
      | Some i \<Rightarrow> \<not> TrustGroup.Trusted (trustGroups p ! i))"


section \<open>Protocol messages\<close>

text \<open>
  A \<open>Message\<close> is a decoded JSON object, \<open>map[string]interface{}\<close>: here an
  association list read with \<open>map_of\<close>; the \<open>nil\<close> map reads as the empty one. A
  type assertion without \<open>ok\<close> on a value of another type panics.
\<close>

datatype jvalue =
  JString string
| JNumber int
| JBool bool
| JArray "jvalue list"
| JObject "(string \<times> jvalue) list"
| JNull

type_synonym Message = "(string \<times> jvalue) list"

definition Message_String :: "Message \<Rightarrow> string \<Rightarrow> string" where
  "Message_String p k = (case map_of p k of Some (JString v) \<Rightarrow> v | _ \<Rightarrow> [])"

definition Message_Message :: "Message \<Rightarrow> string \<Rightarrow> fault + Message" where
  "Message_Message p k =
     (case map_of p k of
        None \<Rightarrow> Inr []
      | Some (JObject m) \<Rightarrow> Inr m
      | Some _ \<Rightarrow> Inl TypeAssertion)"

fun Messages_loop :: "jvalue list \<Rightarrow> Message list \<Rightarrow> fault + Message list" where
  "Messages_loop [] mv = Inr mv"
| "Messages_loop (JObject m # xv) mv = Messages_loop xv (mv @ [m])"
| "Messages_loop (x # xv) mv = Inl TypeAssertion"

definition Message_Messages :: "Message \<Rightarrow> string \<Rightarrow> fault + Message list" where
  "Message_Messages p k =
     (case map_of p k of
        None \<Rightarrow> Inr []
      | Some (JArray xv) \<Rightarrow> Messages_loop xv []
      | Some _ \<Rightarrow> Inl TypeAssertion)"

section \<open>The pause handler of a target\<close>

text \<open>
  The browser at the far end of the connection is the parameter \<open>browser\<close>: it
  gives the response to a request by its method, or \<open>None\<close> when \<open>SendRequest\<close>
  returns an error. The parameters of a request are not modelled. A \<open>session\<close> is the
  target, the client it logs to, and the methods of the requests sent so far. A
  handler returns the session it leaves, or the fault it stops with and the session
  at that point.
\<close>

record Target =
  TargetId :: string
  NavHistory :: "string list"
  Policy :: Policy
  instrumentationScriptId :: string

record session =
  target :: Target
  client :: ChromeClient
  sent :: "string list"

definition SendRequest :: "session \<Rightarrow> string \<Rightarrow> session" where
  "SendRequest s method = s\<lparr>sent := sent s @ [method]\<rparr>"

definition installInstrumentation ::
  "(string \<Rightarrow> Message option) \<Rightarrow> session \<Rightarrow> fault \<times> session + session" where
  "installInstrumentation browser s =
     (if instrumentationScriptId (target s) = [] then
        (case browser ''Runtime.compileScript'' of
           None \<Rightarrow> Inl (LogPanic, SendRequest s ''Runtime.compileScript'')
         | Some r \<Rightarrow>
            if Message_String r ''scriptId'' = [] then
              Inl (LogPanic, SendRequest s ''Runtime.compileScript'')
            else
              (case browser ''Runtime.runScript'' of
                 None \<Rightarrow>
                   Inl (LogPanic,
                        SendRequest
                          ((SendRequest s ''Runtime.compileScript'')
                             \<lparr>target := (target s)\<lparr>instrumentationScriptId :=
                                                     Message_String r ''scriptId''\<rparr>\<rparr>)
                          ''Runtime.runScript'')
               | Some r' \<Rightarrow>
                   Inr (SendRequest
                          ((SendRequest s ''Runtime.compileScript'')
                             \<lparr>target := (target s)\<lparr>instrumentationScriptId :=
                                                     Message_String r ''scriptId''\<rparr>\<rparr>)
                          ''Runtime.runScript'')))
      else Inr s)"

fun scriptIds_loop :: "Message list \<Rightarrow> string list \<Rightarrow> fault + string list" where
  "scriptIds_loop [] scriptIds = Inr scriptIds"
| "scriptIds_loop (cf # callFrames) scriptIds =
     (case Message_Message cf ''location'' of
        Inl f \<Rightarrow> Inl f
      | Inr location \<Rightarrow>
          scriptIds_loop callFrames (scriptIds @ [Message_String location ''scriptId'']))"

text \<open>\<open>strings.TrimPrefix\<close>.\<close>

definition TrimPrefix :: "string \<Rightarrow> string \<Rightarrow> string" where
  "TrimPrefix s pre = (if HasPrefix s pre then drop (length pre) s else s)"

text \<open>
  The branch of \<open>debuggerPaused\<close> between \<open>installInstrumentation\<close> and
  \<open>Debugger.resume\<close>. \<open>now\<close> is the value of \<open>time.Now()\<close>.
\<close>

definition classifyPause ::
  "(string \<Rightarrow> Message option) \<Rightarrow> int \<Rightarrow> session \<Rightarrow> Message \<Rightarrow> Message list \<Rightarrow>
     string list \<Rightarrow> fault \<times> session + session" where
  "classifyPause browser now s p callFrames scriptIds =
     (if Message_String p ''reason'' = ''EventListener'' then
        (case Message_Message p ''data'' of Inl f \<Rightarrow> Inl (f, s) | Inr d \<Rightarrow> Inr s)
      else
        (case scriptIds of
           [] \<Rightarrow> Inl (IndexOutOfRange, s)
         | first # others \<Rightarrow>
            if first = instrumentationScriptId (target s) then
              (case callFrames of
                 [] \<Rightarrow> Inl (IndexOutOfRange, s)
               | cf # cfs \<Rightarrow>
                  (case browser ''Debugger.setVariableValue'' of
                     None \<Rightarrow> Inl (LogPanic, SendRequest s ''Debugger.setVariableValue'')
                   | Some r \<Rightarrow>
                      if HasPrefix (Message_String cf ''functionName'') ''shim_'' then
                        (case LogEvent (client s)
                                (APIAccess
                                   \<lparr>APIAccessEvent.EventId = 0, Timestamp = now,
                                    EventType = ''APIAccess'',
                                    PolicyId = Policy.Id (Target.Policy (target s)),
                                    TargetId = Target.TargetId (target s),
                                    APIName = TrimPrefix (Message_String cf ''functionName'')
                                                ''shim_'',
                                    ScriptIdStack = scriptIds,
                                    PolicyState = State (Target.Policy (target s))\<rparr>) of
                           Inl f \<Rightarrow> Inl (f, SendRequest s ''Debugger.setVariableValue'')
                         | Inr cc \<Rightarrow>
                             Inr ((SendRequest s ''Debugger.setVariableValue'')\<lparr>client := cc\<rparr>))
                      else Inr (SendRequest s ''Debugger.setVariableValue'')))
            else Inr s))"

definition debuggerPaused ::
  "(string \<Rightarrow> Message option) \<Rightarrow> int \<Rightarrow> session \<Rightarrow> Message \<Rightarrow> fault \<times> session + session" where
  "debuggerPaused browser now s p =
     (case Message_Messages p ''callFrames'' of
        Inl f \<Rightarrow> Inl (f, s)
      | Inr callFrames \<Rightarrow>
         (case scriptIds_loop callFrames [] of
            Inl f \<Rightarrow> Inl (f, s)
          | Inr scriptIds \<Rightarrow>
             (case installInstrumentation browser s of
                Inl stopped \<Rightarrow> Inl stopped
              | Inr s1 \<Rightarrow>
                 (case classifyPause browser now s1 p callFrames scriptIds of
                    Inl stopped \<Rightarrow> Inl stopped
                  | Inr s2 \<Rightarrow>
                     (case browser ''Debugger.resume'' of
                        None \<Rightarrow> Inl (LogPanic, SendRequest s2 ''Debugger.resume'')
                      | Some r \<Rightarrow> Inr (SendRequest s2 ''Debugger.resume''))))))"

section \<open>Example sessions\<close>

text \<open>
  A policy snapshot with a trusted group holding the remote script \<open>1\<close> and an
  untrusted group holding the inline script \<open>2\<close>; no group holds the script \<open>9\<close>.
\<close>

definition example_state :: PolicyState where
  "example_state =
     \<lparr>PolicyState.PolicyId = ''p'',
      TrustGroups =
        [\<lparr>TrustGroupState.Trusted = True,
          RemoteScripts = [\<lparr>RemoteScript.ScriptId = ''1'', URL = ''https://a.example/a.js''\<rparr>],
          InlineScripts = []\<rparr>,
         \<lparr>TrustGroupState.Trusted = False,
          RemoteScripts = [],
          InlineScripts = [\<lparr>InlineScript.ScriptId = ''2'', Hash = ''h''\<rparr>]\<rparr>]\<rparr>"


text \<open>Building blocks of example logs.\<close>

definition example_frame :: "string \<Rightarrow> CallFrame" where
  "example_frame sid =
     \<lparr>FunctionName = ''f'', CallFrame.ScriptId = sid, URL = [], LineNumber = 0, ColumnNumber = 0\<rparr>"

definition example_initiator :: "CallFrame list \<Rightarrow> Initiator option" where
  "example_initiator frames =
     Some \<lparr>Type = ''script'', StackTrace = Some (MkStackTrace [] frames None []),
           URL = [], LineNumber = 0\<rparr>"

definition example_presend ::
  "int \<Rightarrow> string \<Rightarrow> Initiator option \<Rightarrow> string \<Rightarrow> NetworkRequestWillBeSentEvent" where
  "example_presend eid pid ini url =
     \<lparr>NetworkRequestWillBeSentEvent.EventId = eid, Timestamp = 0,
      EventType = ''NetworkRequestWillBeSent'', PolicyId = pid, TargetId = ''t'',
      Initiator = ini, LoaderId = [], FrameId = ''t'', HasUserGesture = False,
      ResourceType = ''XHR'', DocumentURL = ''http://localhost:8080/page'',
      Request = \<lparr>NetworkRequest.URL = url, Method = ''GET'', HasPostData = False,
                  IsLinkPreload = False\<rparr>,
      PolicyState = example_state\<rparr>"

definition example_access :: "int \<Rightarrow> string \<Rightarrow> string \<Rightarrow> string list \<Rightarrow> APIAccessEvent" where
  "example_access eid pid api stack =
     \<lparr>APIAccessEvent.EventId = eid, Timestamp = 0, EventType = ''APIAccess'',
      PolicyId = pid, TargetId = ''t'', APIName = api, ScriptIdStack = stack,
      PolicyState = example_state\<rparr>"

definition example_parsed :: "int \<Rightarrow> string \<Rightarrow> DebuggerScriptParsedEvent" where
  "example_parsed eid pid =
     \<lparr>DebuggerScriptParsedEvent.EventId = eid, Timestamp = 0,
      EventType = ''DebuggerScriptParsed'', PolicyId = pid, TargetId = ''t'',
      ScriptId = ''5'', URL = [], Hash = ''h5'', StackTrace = None\<rparr>"

definition example_client :: "logged list \<Rightarrow> string list \<Rightarrow> ChromeClient" where
  "example_client log pids =
     \<lparr>runDir = ''run'', policyType = 2, eventLog = log, nextEventId = int (length log),
      policyIds = pids, instrumentationScript = [], watchedTargets = [], logsDir = ''logs''\<rparr>"

text \<open>
  A page whose only instrumented access comes with an empty script id stack, and
  then sends a request from the untrusted script \<open>2\<close>.
\<close>

definition empty_stack_log :: "logged list" where
  "empty_stack_log =
     [NetworkRequestWillBeSent (example_presend 0 ''p'' None ''http://localhost:8080/page''),
      APIAccess (example_access 1 ''p'' ''cookie'' []),
      NetworkRequestWillBeSent
        (example_presend 2 ''p'' (example_initiator [example_frame ''2''])
           ''https://b.example/get'')]"

text \<open>
  The untrusted script \<open>2\<close> reads a cookie (event 1, the tainting event); then a
  request is sent from the script \<open>9\<close>, which no trust group holds.
\<close>

definition unknown_script_log :: "logged list" where
  "unknown_script_log =
     [NetworkRequestWillBeSent (example_presend 0 ''p'' None ''http://localhost:8080/page''),
      APIAccess (example_access 1 ''p'' ''cookie'' [''2'']),
      NetworkRequestWillBeSent
        (example_presend 2 ''p'' (example_initiator [example_frame ''9''])
           ''https://b.example/get'')]"


text \<open>
  Tainting at event 3, a probe at event 5 with the given script id stack, and a
  request from the untrusted script \<open>2\<close> at event 8.
\<close>

definition probe_log :: "string list \<Rightarrow> logged list" where
  "probe_log probeStack =
     [NetworkRequestWillBeSent (example_presend 0 ''p'' None ''http://localhost:8080/page''),
      DebuggerScriptParsed (example_parsed 1 ''p''),
      DebuggerScriptParsed (example_parsed 2 ''p''),
      APIAccess (example_access 3 ''p'' ''cookie'' [''2'']),
      DebuggerScriptParsed (example_parsed 4 ''p''),
      APIAccess (example_access 5 ''p'' ''exfiltration_probe'' probeStack),
      DebuggerScriptParsed (example_parsed 6 ''p''),
      DebuggerScriptParsed (example_parsed 7 ''p''),
      NetworkRequestWillBeSent
        (example_presend 8 ''p'' (example_initiator [example_frame ''2''])
           ''https://b.example/get'')]"


text \<open>
  After the tainting event 1 of policy \<open>p\<close>, two new targets send their first
  request from the untrusted script \<open>2\<close>: the target of policy \<open>q2\<close> at event 2,
  the target of policy \<open>q1\<close> at event 3.
\<close>

definition popup_log :: "logged list" where
  "popup_log =
     [NetworkRequestWillBeSent (example_presend 0 ''p'' None ''http://localhost:8080/page''),
      APIAccess (example_access 1 ''p'' ''cookie'' [''2'']),
      NetworkRequestWillBeSent
        (example_presend 2 ''q2'' (example_initiator [example_frame ''2''])
           ''https://second.example/''),
      NetworkRequestWillBeSent
        (example_presend 3 ''q1'' (example_initiator [example_frame ''2''])
           ''https://first.example/'')]"


text \<open>
  A hostname policy for the origin \<open>https://a.example\<close> whose untrusted group holds
  the inline script \<open>2\<close>, a stand-in for \<open>url.Parse\<close> on two URLs, and a paused
  target on that policy with the instrumentation installed as script \<open>7\<close>.
\<close>

definition example_policy :: Policy where
  "example_policy =
     \<lparr>Policy.Id = ''p'',
      trustGroups =
        [\<lparr>TrustGroup.ScriptSet = HostnameScriptSet [''https://a.example''] [] [],
          Trusted = True, Tainted = False\<rparr>,
         \<lparr>TrustGroup.ScriptSet =
            UniversalScriptSet [] [\<lparr>InlineScript.ScriptId = ''2'', Hash = ''h''\<rparr>],
          Trusted = False, Tainted = False\<rparr>]\<rparr>"

definition example_parse :: "string \<Rightarrow> ParsedURL option" where
  "example_parse u =
     (if u = ''https://a.example/x.js'' then Some \<lparr>Scheme = ''https'', Host = ''a.example''\<rparr>
      else if u = ''https://b.example/y.js'' then Some \<lparr>Scheme = ''https'', Host = ''b.example''\<rparr>
      else None)"

definition example_session :: session where
  "example_session =
     \<lparr>target = \<lparr>Target.TargetId = ''t'', NavHistory = [''http://localhost:8080/page''],
                Policy = example_policy, instrumentationScriptId = ''7''\<rparr>,
      client = example_client [] [''p''],
      sent = []\<rparr>"

definition example_pause :: Message where
  "example_pause = [(''reason'', JString ''other''), (''callFrames'', JArray [])]"


text \<open>
  The first request of policy \<open>p\<close> itself comes after the tainting event 0 and is
  sent from the script \<open>9\<close>, which no trust group holds.
\<close>

definition own_first_request_log :: "logged list" where
  "own_first_request_log =
     [APIAccess (example_access 0 ''p'' ''cookie'' [''2'']),
      NetworkRequestWillBeSent
        (example_presend 1 ''p'' (example_initiator [example_frame ''9''])
           ''https://b.example/get'')]"


section \<open>Properties of the trust lookup\<close>

lemma find_not_None: "find P xs \<noteq> None \<longleftrightarrow> (\<exists>x\<in>set xs. P x)"
  by (induction xs) auto

lemma find_Some_split:
  "find P xs = Some x \<longleftrightarrow> (\<exists>pre post. xs = pre @ x # post \<and> (\<forall>h\<in>set pre. \<not> P h) \<and> P x)"
proof
  assume "find P xs = Some x"
  then obtain i where i: "i < length xs" "P (xs ! i)" "x = xs ! i" "\<forall>j<i. \<not> P (xs ! j)"
    unfolding find_Some_iff by blast
  have "xs = take i xs @ x # drop (Suc i) xs"
    using i(1,3) by (simp add: id_take_nth_drop)
  moreover have "\<forall>h\<in>set (take i xs). \<not> P h"
    using i(1,4) by (auto simp: in_set_conv_nth)
  ultimately show "\<exists>pre post. xs = pre @ x # post \<and> (\<forall>h\<in>set pre. \<not> P h) \<and> P x"
    using i(2,3) by blast
next
  assume "\<exists>pre post. xs = pre @ x # post \<and> (\<forall>h\<in>set pre. \<not> P h) \<and> P x"
  then obtain pre post where p: "xs = pre @ x # post" "\<forall>h\<in>set pre. \<not> P h" "P x" by blast
  have "find P (pre @ x # post) = Some x"
    using p(2,3) by (induction pre) auto
  with p(1) show "find P xs = Some x" by simp
qed

lemma firstGroupState_find:
  "firstGroupState gs sid =
     find (\<lambda>g. sid \<in> RemoteScript.ScriptId ` set (TrustGroupState.RemoteScripts g)
              \<or> sid \<in> InlineScript.ScriptId ` set (TrustGroupState.InlineScripts g)) gs"
proof (induction gs)
  case Nil
  show ?case by simp
next
  case (Cons g gs)
  have "(GetRemoteScript g sid \<noteq> None \<or> GetInlineScript g sid \<noteq> None) \<longleftrightarrow>
        (sid \<in> RemoteScript.ScriptId ` set (TrustGroupState.RemoteScripts g)
         \<or> sid \<in> InlineScript.ScriptId ` set (TrustGroupState.InlineScripts g))"
    unfolding GetRemoteScript.simps GetInlineScript.simps find_not_None by blast
  with Cons show ?case
    by (simp del: GetRemoteScript.simps GetInlineScript.simps not_None_eq)
qed

lemma StackIsTrusted_all:
  "StackIsTrusted s stack \<longleftrightarrow>
     (\<forall>sid\<in>set stack. \<exists>g. TrustGroupStateForScriptId s sid = Some g \<and> TrustGroupState.Trusted g)"
proof (induction stack)
  case Nil
  show ?case by simp
next
  case (Cons a stack)
  show ?case
  proof (cases "TrustGroupStateForScriptId s a")
    case None
    then show ?thesis by simp
  next
    case (Some g)
    then show ?thesis using Cons.IH by (cases "TrustGroupState.Trusted g") simp_all
  qed
qed


text \<open>
  C2. \<open>StackIsTrusted\<close> holds exactly when every script id of the stack is
  registered, as a remote or an inline script, in some group of the state, and the
  group it resolves to, the first such group in the order of the state, has
  \<open>Trusted = true\<close>. One script id that no group holds, or whose group is
  untrusted, makes it false.
\<close>
theorem StackIsTrusted_iff:
  "StackIsTrusted s stack \<longleftrightarrow>
     (\<forall>sid\<in>set stack. \<exists>pre g post.
        TrustGroups s = pre @ g # post
        \<and> (\<forall>h\<in>set pre. \<not> (sid \<in> RemoteScript.ScriptId ` set (TrustGroupState.RemoteScripts h)
                        \<or> sid \<in> InlineScript.ScriptId ` set (TrustGroupState.InlineScripts h)))
        \<and> (sid \<in> RemoteScript.ScriptId ` set (TrustGroupState.RemoteScripts g)
            \<or> sid \<in> InlineScript.ScriptId ` set (TrustGroupState.InlineScripts g))
        \<and> TrustGroupState.Trusted g)"
proof -
  have "(\<exists>g. TrustGroupStateForScriptId s sid = Some g \<and> TrustGroupState.Trusted g) \<longleftrightarrow>
        (\<exists>pre g post.
        TrustGroups s = pre @ g # post
        \<and> (\<forall>h\<in>set pre. \<not> (sid \<in> RemoteScript.ScriptId ` set (TrustGroupState.RemoteScripts h)
                        \<or> sid \<in> InlineScript.ScriptId ` set (TrustGroupState.InlineScripts h)))
        \<and> (sid \<in> RemoteScript.ScriptId ` set (TrustGroupState.RemoteScripts g)
            \<or> sid \<in> InlineScript.ScriptId ` set (TrustGroupState.InlineScripts g))
        \<and> TrustGroupState.Trusted g)" for sid
    unfolding TrustGroupStateForScriptId_def firstGroupState_find find_Some_split by blast
  then show ?thesis
    unfolding StackIsTrusted_all by simp
qed

theorem StackIsTrusted_iff_witness:
  "StackIsTrusted example_state [''1''] \<and> \<not> StackIsTrusted example_state [''1'', ''2'']
   \<and> \<not> StackIsTrusted example_state [''9'']"
proof -
  have "\<forall>sid\<in>set [''1'']. \<exists>pre g post.
        TrustGroups example_state = pre @ g # post
        \<and> (\<forall>h\<in>set pre. \<not> (sid \<in> RemoteScript.ScriptId ` set (TrustGroupState.RemoteScripts h)
                        \<or> sid \<in> InlineScript.ScriptId ` set (TrustGroupState.InlineScripts h)))
        \<and> (sid \<in> RemoteScript.ScriptId ` set (TrustGroupState.RemoteScripts g)
            \<or> sid \<in> InlineScript.ScriptId ` set (TrustGroupState.InlineScripts g))
        \<and> TrustGroupState.Trusted g"
    apply (rule ballI)
    apply (rule exI [of _ "[]"])
    apply (rule exI [of _ "hd (TrustGroups example_state)"])
    apply (rule exI [of _ "tl (TrustGroups example_state)"])
    apply (simp add: example_state_def)
    done
  then have "StackIsTrusted example_state [''1'']"
    using StackIsTrusted_iff [of example_state "[''1'']"] by blast
  moreover have "\<not> StackIsTrusted example_state [''1'', ''2'']"
    by (simp add: example_state_def TrustGroupStateForScriptId_def)
  moreover have "\<not> StackIsTrusted example_state [''9'']"
    by (simp add: example_state_def TrustGroupStateForScriptId_def)
  ultimately show ?thesis by blast
qed


text \<open>
  C9. The empty stack is trusted in every policy state, with or without trust groups.
  So the event that the first loop of the analyzer selects as the tainting event never
  has an empty script id stack, and a policy whose access events all have an empty
  stack gets no tainting API name and no violation.
\<close>
theorem empty_stack_never_taints:
  "StackIsTrusted s []
   \<and> (\<forall>e. taintingLoop apiLogs = Some e \<longrightarrow> ScriptIdStack e \<noteq> [])
   \<and> ((\<forall>e\<in>set (APIAccessLogs cc pid). ScriptIdStack e = []) \<longrightarrow>
        TaintingAPIName (AnalyzePolicy cc pid) = [] \<and> \<not> PolicyViolated (AnalyzePolicy cc pid))"
proof -
  have a: "taintingLoop logs = Some e \<Longrightarrow> ScriptIdStack e \<noteq> []" for logs e
  proof (induction logs)
    case Nil
    then show ?case by simp
  next
    case (Cons x logs)
    then show ?case
      by (cases "ScriptIdStack x") (auto split: if_splits)
  qed
  have b: "taintingLoop logs = Some e \<Longrightarrow> e \<in> set logs" for logs e
    by (induction logs) (auto split: if_splits)
  have c: "\<forall>e\<in>set (APIAccessLogs cc pid). ScriptIdStack e = [] \<Longrightarrow>
             taintingLoop (APIAccessLogs cc pid) = None"
  proof (cases "taintingLoop (APIAccessLogs cc pid)")
    case None
    then show ?thesis by simp
  next
    case (Some e)
    assume all: "\<forall>e\<in>set (APIAccessLogs cc pid). ScriptIdStack e = []"
    from Some have "e \<in> set (APIAccessLogs cc pid)" by (rule b)
    with all have "ScriptIdStack e = []" by blast
    moreover from Some have "ScriptIdStack e \<noteq> []" by (rule a)
    ultimately show ?thesis by blast
  qed
  have d: "\<forall>e\<in>set (APIAccessLogs cc pid). ScriptIdStack e = [] \<Longrightarrow>
        TaintingAPIName (AnalyzePolicy cc pid) = [] \<and> \<not> PolicyViolated (AnalyzePolicy cc pid)"
    using c by (simp add: AnalyzePolicy_def emptyAnalysis_def split: list.splits)
  show ?thesis using a d by auto
qed

theorem empty_stack_never_taints_witness:
  "map ScriptIdStack (APIAccessLogs (example_client empty_stack_log [''p'']) ''p'') = [[]]
   \<and> TaintingAPIName (AnalyzePolicy (example_client empty_stack_log [''p'']) ''p'') = []
   \<and> \<not> PolicyViolated (AnalyzePolicy (example_client empty_stack_log [''p'']) ''p'')"
proof -
  have h: "\<forall>e\<in>set (APIAccessLogs (example_client empty_stack_log [''p'']) ''p'').
             ScriptIdStack e = []"
    by (simp add: APIAccessLogs_def example_client_def empty_stack_log_def
        example_access_def example_presend_def)
  have m: "map ScriptIdStack (APIAccessLogs (example_client empty_stack_log [''p'']) ''p'') = [[]]"
    by (simp add: APIAccessLogs_def example_client_def empty_stack_log_def
        example_access_def example_presend_def)
  from h m
    empty_stack_never_taints [of example_state "[]" "example_client empty_stack_log [''p'']" "''p''"]
  show ?thesis by blast
qed

section \<open>Properties of the log\<close>

lemma wrapInt_id: "0 \<le> x \<Longrightarrow> x < 2 ^ 63 \<Longrightarrow> wrapInt x = x"
  by (simp add: wrapInt_def)

lemma assignEventId_event:
  "e \<noteq> OtherValue \<Longrightarrow> \<exists>e'. assignEventId e n = Inr e' \<and> eventIdOf e' = Some n"
  by (cases e) simp_all

lemma LogEvent_event:
  "e \<noteq> OtherValue \<Longrightarrow>
     \<exists>e'. LogEvent cc e = Inr (cc\<lparr>eventLog := eventLog cc @ [e'],
                                    nextEventId := wrapInt (nextEventId cc + 1)\<rparr>)
          \<and> eventIdOf e' = Some (nextEventId cc)"
  using assignEventId_event [of e "nextEventId cc"] by (auto simp: LogEvent_def)

lemma LogEvent_other: "LogEvent cc OtherValue = Inl LogPanic"
  by (simp add: LogEvent_def)

lemma LogEvents_ids:
  "0 \<le> nextEventId cc \<Longrightarrow>
   nextEventId cc + int (length (filter (\<lambda>e. e \<noteq> OtherValue) es)) \<le> 2 ^ 63 \<Longrightarrow>
   map eventIdOf (eventLog (LogEvents cc es)) =
     map eventIdOf (eventLog cc)
     @ map (\<lambda>i. Some (nextEventId cc + int i)) [0..<length (filter (\<lambda>e. e \<noteq> OtherValue) es)]"
proof (induction es arbitrary: cc)
  case Nil
  then show ?case by simp
next
  case (Cons e es)
  show ?case
  proof (cases "e = OtherValue")
    case True
    then show ?thesis using Cons by (simp add: LogEvent_other)
  next
    case False
    let ?k = "length (filter (\<lambda>e. e \<noteq> OtherValue) es)"
    from LogEvent_event [OF False, of cc] obtain e' where
      e': "LogEvent cc e = Inr (cc\<lparr>eventLog := eventLog cc @ [e'],
                                    nextEventId := wrapInt (nextEventId cc + 1)\<rparr>)"
      "eventIdOf e' = Some (nextEventId cc)" by blast
    let ?cc = "cc\<lparr>eventLog := eventLog cc @ [e'], nextEventId := wrapInt (nextEventId cc + 1)\<rparr>"
    have step: "LogEvents cc (e # es) = LogEvents ?cc es" using e'(1) by simp
    have bound: "nextEventId cc + 1 + int ?k \<le> 2 ^ 63" using Cons.prems(2) False by simp
    show ?thesis
    proof (cases "?k = 0")
      case True
      then have "filter (\<lambda>e. e \<noteq> OtherValue) es = []" by simp
      then have "\<forall>x\<in>set es. x = OtherValue" by (simp add: filter_empty_conv)
      then have "LogEvents ?cc es = ?cc"
        by (induction es) (simp_all add: LogEvent_other)
      with step True False e'(2) show ?thesis by simp
    next
      case k: False
      then have lt: "nextEventId cc + 1 < 2 ^ 63" using bound by linarith
      have w: "wrapInt (nextEventId cc + 1) = nextEventId cc + 1"
        using Cons.prems(1) lt by (simp add: wrapInt_id)
      have "map eventIdOf (eventLog (LogEvents ?cc es)) =
              map eventIdOf (eventLog ?cc)
              @ map (\<lambda>i. Some (nextEventId ?cc + int i)) [0..<?k]"
        using Cons.prems(1) bound w by (intro Cons.IH) simp_all
      also have "\<dots> = map eventIdOf (eventLog cc) @ Some (nextEventId cc)
                    # map (\<lambda>i. Some (nextEventId cc + 1 + int i)) [0..<?k]"
        using e'(2) w by simp
      also have "map (\<lambda>i. Some (nextEventId cc + 1 + int i)) [0..<?k]
                 = map (\<lambda>i. Some (nextEventId cc + int i)) (map Suc [0..<?k])"
        by (simp add: algebra_simps)
      also have "Some (nextEventId cc) # map (\<lambda>i. Some (nextEventId cc + int i)) (map Suc [0..<?k])
                 = map (\<lambda>i. Some (nextEventId cc + int i)) [0..<Suc ?k]"
        by (simp add: upt_conv_Cons map_Suc_upt del: upt_Suc)
      finally show ?thesis using step False by simp
    qed
  qed
qed


text \<open>
  C7. Started on a client whose log is empty and whose counter is zero, as
  \<open>NewChromeClient\<close> leaves them, any sequence of \<open>LogEvent\<close> calls gives the logged
  events the ids \<open>0, 1, 2, \<dots>\<close> in log order, whoever the callers are and whatever
  ids the events carried, as long as fewer than \<open>2^63\<close> events are logged. Each call
  with an event stores the counter in it, appends it and adds one to the counter. A
  call with a value of another type panics before anything is appended.
\<close>

theorem LogEvent_assigns_consecutive_ids:
  assumes "eventLog cc = []" and "nextEventId cc = 0"
    and "int (length (filter (\<lambda>e. e \<noteq> OtherValue) es)) \<le> 2 ^ 63"
  shows "map eventIdOf (eventLog (LogEvents cc es)) =
           map (\<lambda>i. Some (int i)) [0..<length (filter (\<lambda>e. e \<noteq> OtherValue) es)]
         \<and> LogEvent c OtherValue = Inl LogPanic
         \<and> (e \<noteq> OtherValue \<longrightarrow>
              (\<exists>e'. LogEvent c e = Inr (c\<lparr>eventLog := eventLog c @ [e'],
                                           nextEventId := wrapInt (nextEventId c + 1)\<rparr>)
                    \<and> eventIdOf e' = Some (nextEventId c)))"
  using assms LogEvents_ids [of cc es] LogEvent_other [of c] LogEvent_event [of e c]
  by simp


theorem LogEvent_assigns_consecutive_ids_witness:
  "map eventIdOf
     (eventLog (LogEvents (example_client [] [])
        [APIAccess (example_access 99 ''p'' ''cookie'' []), OtherValue,
         DebuggerScriptParsed (example_parsed 42 ''p'')])) = [Some 0, Some 1]"
proof -
  have h: "eventLog (example_client [] []) = [] \<and> nextEventId (example_client [] []) = 0
    \<and> int (length (filter (\<lambda>e. e \<noteq> OtherValue)
             [APIAccess (example_access 99 ''p'' ''cookie'' []), OtherValue,
              DebuggerScriptParsed (example_parsed 42 ''p'')])) \<le> 2 ^ 63"
    by (simp add: example_client_def)
  have k: "map (\<lambda>i. Some (int i))
             [0..<length (filter (\<lambda>e. e \<noteq> OtherValue)
                [APIAccess (example_access 99 ''p'' ''cookie'' []), OtherValue,
                 DebuggerScriptParsed (example_parsed 42 ''p'')])] = [Some 0, Some 1]"
    by (simp add: upt_rec)
  from h LogEvent_assigns_consecutive_ids
         [of "example_client [] []"
             "[APIAccess (example_access 99 ''p'' ''cookie'' []), OtherValue,
               DebuggerScriptParsed (example_parsed 42 ''p'')]"
             "example_client [] []" OtherValue]
  show ?thesis unfolding k by blast
qed


section \<open>Properties of the analyzer\<close>

text \<open>
  The two selections that \<open>AnalyzePolicy\<close> works on are the events of the policy, of
  one kind, in log order.
\<close>

lemma NetworkRequestWillBeSentLogs_filter:
  "map NetworkRequestWillBeSent (NetworkRequestWillBeSentLogs cc pid) =
     filter (\<lambda>v. case v of
                   NetworkRequestWillBeSent c \<Rightarrow> NetworkRequestWillBeSentEvent.PolicyId c = pid
                 | _ \<Rightarrow> False) (eventLog cc)"
proof -
  have "map NetworkRequestWillBeSent (NetworkRequestWillBeSentLogs_loop log pid) =
     filter (\<lambda>v. case v of
                   NetworkRequestWillBeSent c \<Rightarrow> NetworkRequestWillBeSentEvent.PolicyId c = pid
                 | _ \<Rightarrow> False) log" for log
  proof (induction log)
    case Nil
    show ?case by simp
  next
    case (Cons v log)
    then show ?case by (cases v) simp_all
  qed
  then show ?thesis by (simp add: NetworkRequestWillBeSentLogs_def)
qed

lemma APIAccessLogs_filter:
  "map APIAccess (APIAccessLogs cc pid) =
     filter (\<lambda>v. case v of APIAccess c \<Rightarrow> APIAccessEvent.PolicyId c = pid | _ \<Rightarrow> False)
       (eventLog cc)"
proof -
  have "map APIAccess (APIAccessLogs_loop log pid) =
     filter (\<lambda>v. case v of APIAccess c \<Rightarrow> APIAccessEvent.PolicyId c = pid | _ \<Rightarrow> False) log"
    for log
  proof (induction log)
    case Nil
    show ?case by simp
  next
    case (Cons v log)
    then show ?case by (cases v) simp_all
  qed
  then show ?thesis by (simp add: APIAccessLogs_def)
qed


lemma crossLoop_log:
  "eventLog cc = eventLog cc' \<Longrightarrow>
   crossLoop cc apiLogs taintId pids acc = crossLoop cc' apiLogs taintId pids acc"
proof (induction pids arbitrary: acc)
  case Nil
  show ?case by simp
next
  case (Cons otherPid pids)
  obtain exf pa where acc: "acc = (exf, pa)" by (cases acc)
  have l: "NetworkRequestWillBeSentLogs cc otherPid = NetworkRequestWillBeSentLogs cc' otherPid"
    using Cons.prems by (simp add: NetworkRequestWillBeSentLogs_def)
  show ?case
    unfolding acc crossLoop.simps l Cons.IH [OF Cons.prems] by (rule refl)
qed


text \<open>
  C8. \<open>AnalyzePolicy\<close> reads the event log, the list of policy ids and its
  argument, and nothing else of the client: two clients with the same log and the
  same policy ids get the same analysis of a policy, field by field.
\<close>

theorem AnalyzePolicy_deterministic:
  assumes log: "eventLog cc = eventLog cc'" and pids: "policyIds cc = policyIds cc'"
  shows "AnalyzePolicy cc pid = AnalyzePolicy cc' pid"
proof -
  have presend: "NetworkRequestWillBeSentLogs cc pid = NetworkRequestWillBeSentLogs cc' pid"
    using log by (simp add: NetworkRequestWillBeSentLogs_def)
  have api: "APIAccessLogs cc pid = APIAccessLogs cc' pid"
    using log by (simp add: APIAccessLogs_def)
  have cross: "crossLoop cc apiLogs taintId ps acc = crossLoop cc' apiLogs taintId ps acc"
    for apiLogs taintId ps acc
    using log by (rule crossLoop_log)
  show ?thesis
    unfolding AnalyzePolicy_def presend api pids cross by (rule refl)
qed

theorem AnalyzePolicy_deterministic_witness:
  "AnalyzePolicy (example_client (probe_log [''2'']) [''p'']) ''p'' =
   AnalyzePolicy ((example_client (probe_log [''2'']) [''p''])
                    \<lparr>runDir := ''elsewhere'', nextEventId := 0\<rparr>) ''p''
   \<and> PolicyViolated (AnalyzePolicy (example_client (probe_log [''2'']) [''p'']) ''p'')"
proof -
  have "PolicyViolated (AnalyzePolicy (example_client (probe_log [''2'']) [''p'']) ''p'')"
    by code_simp
  then show ?thesis
    using AnalyzePolicy_deterministic
            [of "example_client (probe_log [''2'']) [''p'']"
                "(example_client (probe_log [''2'']) [''p''])
                    \<lparr>runDir := ''elsewhere'', nextEventId := 0\<rparr>" "''p''"]
    by simp
qed

lemma primaryFrames_result:
  "primaryFrames ps cfv (b, acc) =
     (b \<and> \<not> list_ex (untrustedFrame ps) cfv, acc @ map CallFrame.ScriptId cfv)"
proof (induction cfv arbitrary: b acc)
  case Nil
  show ?case by simp
next
  case (Cons cf cfv)
  show ?case
    by (cases "TrustGroupStateForScriptId ps (CallFrame.ScriptId cf)")
       (auto simp: Cons.IH untrustedFrame_def)
qed

lemma primaryLoop_skip:
  "\<not> primaryViolation taintId e \<Longrightarrow>
   primaryLoop taintId (e # es) (exf, pa) = primaryLoop taintId es (exf, pa)"
  by (simp add: primaryViolation_def primaryFrames_result split: option.splits)

lemma primaryLoop_hit:
  "primaryViolation taintId e \<Longrightarrow> Initiator e = Some ini \<Longrightarrow>
   Initiator.StackTrace ini = Some st \<Longrightarrow>
   primaryLoop taintId (e # es) (exf, pa) =
     (NetworkRequestWillBeSentEvent.EventId e,
      pa\<lparr>PolicyViolated := True,
         ReqInitiator := Initiator.Type ini,
         ReqResourceType := NetworkRequestWillBeSentEvent.ResourceType e,
         ReqURL := NetworkRequest.URL (NetworkRequestWillBeSentEvent.Request e),
         ReqStackScripts := map CallFrame.ScriptId (initiatorFrames st)\<rparr>)"
  by (simp add: primaryViolation_def primaryFrames_result)

lemma primaryLoop_none:
  "\<forall>x\<in>set es. \<not> primaryViolation taintId x \<Longrightarrow>
   primaryLoop taintId es (exf, pa) = (exf, pa)"
  by (induction es) (simp_all add: primaryLoop_skip del: primaryLoop.simps(2))

lemma primaryLoop_first:
  "\<forall>x\<in>set pre. \<not> primaryViolation taintId x \<Longrightarrow>
   primaryLoop taintId (pre @ es) (exf, pa) = primaryLoop taintId es (exf, pa)"
  by (induction pre) (simp_all add: primaryLoop_skip del: primaryLoop.simps(2))

lemma untrustedFrame_not_trusted:
  "list_ex (untrustedFrame ps) cfv \<Longrightarrow> \<not> StackIsTrusted ps (map CallFrame.ScriptId cfv)"
  by (induction cfv) (auto simp: untrustedFrame_def split: option.splits)


text \<open>
  C1, as amended. The primary check reports the first request of the policy, in log
  order, that has an initiator with a stack trace, an event id above the tainting
  event's, and a frame (among the trace's frames, or its parent's when it has none)
  whose script id resolves, in the state embedded in the event, to a group with
  \<open>Trusted = false\<close>. Its event id, initiator type, resource type, request URL and
  the script ids of those frames are copied. When no request is of that kind the
  analysis is left as it was. A request flagged this way is one that
  \<open>StackIsTrusted\<close> rejects; a frame whose script id no group holds is only logged
  and does not make the request a violation.
\<close>

theorem primary_check_first_untrusted_request:
  "(presendLogs = pre @ e # post
      \<and> (\<forall>x\<in>set pre. \<not> primaryViolation taintId x)
      \<and> primaryViolation taintId e
      \<and> Initiator e = Some ini \<and> Initiator.StackTrace ini = Some st
    \<longrightarrow> primaryLoop taintId presendLogs (exf, pa) =
          (NetworkRequestWillBeSentEvent.EventId e,
           pa\<lparr>PolicyViolated := True,
              ReqInitiator := Initiator.Type ini,
              ReqResourceType := NetworkRequestWillBeSentEvent.ResourceType e,
              ReqURL := NetworkRequest.URL (NetworkRequestWillBeSentEvent.Request e),
              ReqStackScripts := map CallFrame.ScriptId (initiatorFrames st)\<rparr>))
   \<and> ((\<forall>x\<in>set presendLogs. \<not> primaryViolation taintId x)
    \<longrightarrow> primaryLoop taintId presendLogs (exf, pa) = (exf, pa))
   \<and> (list_ex (untrustedFrame ps) cfv \<longrightarrow> \<not> StackIsTrusted ps (map CallFrame.ScriptId cfv))"
  using primaryLoop_first [of pre taintId "e # post" exf pa]
    primaryLoop_hit [of taintId e ini st post exf pa]
    primaryLoop_none [of presendLogs taintId exf pa]
    untrustedFrame_not_trusted [of ps cfv]
  by auto

theorem primary_check_first_untrusted_request_witness:
  "primaryLoop 3
     (NetworkRequestWillBeSentLogs (example_client (probe_log [''2'']) [''p'']) ''p'')
     (0, emptyAnalysis ''p'') =
   (8, (emptyAnalysis ''p'')
         \<lparr>PolicyViolated := True, ReqInitiator := ''script'', ReqResourceType := ''XHR'',
          ReqURL := ''https://b.example/get'', ReqStackScripts := [''2'']\<rparr>)"
proof -
  let ?e0 = "example_presend 0 ''p'' None ''http://localhost:8080/page''"
  let ?st = "MkStackTrace [] [example_frame ''2''] None []"
  let ?ini = "\<lparr>Type = ''script'', StackTrace = Some ?st, URL = [], LineNumber = 0\<rparr>"
  let ?e8 = "example_presend 8 ''p'' (example_initiator [example_frame ''2''])
               ''https://b.example/get''"
  have h: "NetworkRequestWillBeSentLogs (example_client (probe_log [''2'']) [''p'']) ''p''
             = [?e0] @ ?e8 # []
           \<and> (\<forall>x\<in>set [?e0]. \<not> primaryViolation 3 x)
           \<and> primaryViolation 3 ?e8
           \<and> Initiator ?e8 = Some ?ini \<and> Initiator.StackTrace ?ini = Some ?st"
    by code_simp
  from h primary_check_first_untrusted_request
         [of "NetworkRequestWillBeSentLogs (example_client (probe_log [''2'']) [''p'']) ''p''"
             "[?e0]" ?e8 "[]" 3 ?ini ?st 0 "emptyAnalysis ''p''" example_state "[]"]
  have "primaryLoop 3
          (NetworkRequestWillBeSentLogs (example_client (probe_log [''2'']) [''p'']) ''p'')
          (0, emptyAnalysis ''p'') =
        (NetworkRequestWillBeSentEvent.EventId ?e8,
         (emptyAnalysis ''p'')
           \<lparr>PolicyViolated := True, ReqInitiator := Initiator.Type ?ini,
            ReqResourceType := NetworkRequestWillBeSentEvent.ResourceType ?e8,
            ReqURL := NetworkRequest.URL (NetworkRequestWillBeSentEvent.Request ?e8),
            ReqStackScripts := map CallFrame.ScriptId (initiatorFrames ?st)\<rparr>)"
    by blast
  then show ?thesis
    by (simp add: example_presend_def example_frame_def initiatorFrames_def)
qed


text \<open>
  The claim as stated fails: in \<open>unknown_script_log\<close> the request of event 2 comes
  after the tainting event 1, has an initiator stack, and \<open>StackIsTrusted\<close> rejects
  its stack, since no group holds the script \<open>9\<close>; the analysis reports no violation.
\<close>

theorem primary_check_unknown_script_counterexample:
  "NetworkRequestWillBeSentLogs (example_client unknown_script_log [''p'']) ''p'' =
     [example_presend 0 ''p'' None ''http://localhost:8080/page'',
      example_presend 2 ''p'' (example_initiator [example_frame ''9'']) ''https://b.example/get'']
   \<and> taintingLoop (APIAccessLogs (example_client unknown_script_log [''p'']) ''p'') =
       Some (example_access 1 ''p'' ''cookie'' [''2''])
   \<and> \<not> StackIsTrusted example_state (map CallFrame.ScriptId [example_frame ''9''])
   \<and> \<not> PolicyViolated (AnalyzePolicy (example_client unknown_script_log [''p'']) ''p'')"
  by code_simp


lemma probeLoop_skip:
  "\<not> probeViolation taintId (exf, pa) e \<Longrightarrow>
   probeLoop taintId (e # es) (exf, pa) = probeLoop taintId es (exf, pa)"
  by (auto simp: probeViolation_def)

lemma probeLoop_hit:
  "probeViolation taintId (exf, pa) e \<Longrightarrow>
   probeLoop taintId (e # es) (exf, pa) =
     (APIAccessEvent.EventId e,
      pa\<lparr>PolicyViolated := True, ReqResourceType := ''Document'',
         ReqInitiator := ''script'', ReqStackScripts := ScriptIdStack e\<rparr>)"
  by (auto simp: probeViolation_def)

lemma probeLoop_none:
  "\<forall>x\<in>set es. \<not> probeViolation taintId (exf, pa) x \<Longrightarrow>
   probeLoop taintId es (exf, pa) = (exf, pa)"
  by (induction es) (simp_all add: probeLoop_skip del: probeLoop.simps(2))

lemma probeLoop_first:
  "\<forall>x\<in>set pre. \<not> probeViolation taintId (exf, pa) x \<Longrightarrow>
   probeLoop taintId (pre @ es) (exf, pa) = probeLoop taintId es (exf, pa)"
  by (induction pre) (simp_all add: probeLoop_skip del: probeLoop.simps(2))


text \<open>
  C3, as amended. Among the access events of the policy, the first one whose API name
  starts with \<open>exfiltration_\<close>, whose script id stack \<open>StackIsTrusted\<close> rejects in
  the state embedded in the event, whose event id is above the tainting event's, and
  that comes with no violation found yet or with an event id below the violation's,
  replaces the result of the primary check: resource type \<open>Document\<close>, initiator
  \<open>script\<close>, and its script id stack. With no such event the result is unchanged.
\<close>

theorem probe_check_first_untrusted_probe:
  "(apiLogs = pre @ e # post
      \<and> (\<forall>x\<in>set pre. \<not> probeViolation taintId (exf, pa) x)
      \<and> probeViolation taintId (exf, pa) e
    \<longrightarrow> probeLoop taintId apiLogs (exf, pa) =
          (APIAccessEvent.EventId e,
           pa\<lparr>PolicyViolated := True, ReqResourceType := ''Document'',
              ReqInitiator := ''script'', ReqStackScripts := ScriptIdStack e\<rparr>))
   \<and> ((\<forall>x\<in>set apiLogs. \<not> probeViolation taintId (exf, pa) x)
    \<longrightarrow> probeLoop taintId apiLogs (exf, pa) = (exf, pa))"
  using probeLoop_first [of pre taintId exf pa "e # post"]
    probeLoop_hit [of taintId exf pa e post]
    probeLoop_none [of apiLogs taintId exf pa]
  by auto


theorem probe_check_first_untrusted_probe_witness:
  "probeLoop 3 (APIAccessLogs (example_client (probe_log [''2'']) [''p'']) ''p'')
     (8, (emptyAnalysis ''p'')\<lparr>PolicyViolated := True, ReqResourceType := ''XHR''\<rparr>) =
   (5, (emptyAnalysis ''p'')
         \<lparr>PolicyViolated := True, ReqResourceType := ''Document'',
          ReqInitiator := ''script'', ReqStackScripts := [''2'']\<rparr>)
   \<and> ReqResourceType (AnalyzePolicy (example_client (probe_log [''2'']) [''p'']) ''p'')
       = ''Document''
   \<and> ReqInitiator (AnalyzePolicy (example_client (probe_log [''2'']) [''p'']) ''p'')
       = ''script''"
proof -
  let ?a3 = "example_access 3 ''p'' ''cookie'' [''2'']"
  let ?a5 = "example_access 5 ''p'' ''exfiltration_probe'' [''2'']"
  let ?pa = "(emptyAnalysis ''p'')\<lparr>PolicyViolated := True, ReqResourceType := ''XHR''\<rparr>"
  have h: "APIAccessLogs (example_client (probe_log [''2'']) [''p'']) ''p'' = [?a3] @ ?a5 # []
           \<and> (\<forall>x\<in>set [?a3]. \<not> probeViolation 3 (8, ?pa) x)
           \<and> probeViolation 3 (8, ?pa) ?a5"
    by code_simp
  from h probe_check_first_untrusted_probe
         [of "APIAccessLogs (example_client (probe_log [''2'']) [''p'']) ''p''"
             "[?a3]" ?a5 "[]" 3 8 ?pa]
  have "probeLoop 3 (APIAccessLogs (example_client (probe_log [''2'']) [''p'']) ''p'') (8, ?pa) =
        (APIAccessEvent.EventId ?a5,
         ?pa\<lparr>PolicyViolated := True, ReqResourceType := ''Document'',
             ReqInitiator := ''script'', ReqStackScripts := ScriptIdStack ?a5\<rparr>)"
    by blast
  then have "probeLoop 3 (APIAccessLogs (example_client (probe_log [''2'']) [''p'']) ''p'') (8, ?pa) =
     (5, (emptyAnalysis ''p'')
         \<lparr>PolicyViolated := True, ReqResourceType := ''Document'',
          ReqInitiator := ''script'', ReqStackScripts := [''2'']\<rparr>)"
    by (simp add: example_access_def)
  moreover have
    "ReqResourceType (AnalyzePolicy (example_client (probe_log [''2'']) [''p'']) ''p'')
       = ''Document''
     \<and> ReqInitiator (AnalyzePolicy (example_client (probe_log [''2'']) [''p'']) ''p'')
       = ''script''"
    by code_simp
  ultimately show ?thesis by blast
qed


text \<open>
  The claim as stated fails: with tainting at event 3, a probe at event 5 whose stack
  holds only the trusted script \<open>1\<close>, and a request flagged at event 8, the probe is
  skipped and the request of event 8 stays the reported violation.
\<close>

theorem probe_check_trusted_probe_counterexample:
  "taintingLoop (APIAccessLogs (example_client (probe_log [''1'']) [''p'']) ''p'') =
       Some (example_access 3 ''p'' ''cookie'' [''2''])
   \<and> fst (primaryLoop 3 (NetworkRequestWillBeSentLogs (example_client (probe_log [''1'']) [''p'']) ''p'')
           (0, emptyAnalysis ''p'')) = 8
   \<and> APIAccessLogs (example_client (probe_log [''1'']) [''p'']) ''p'' =
       [example_access 3 ''p'' ''cookie'' [''2''],
        example_access 5 ''p'' ''exfiltration_probe'' [''1'']]
   \<and> ReqResourceType (AnalyzePolicy (example_client (probe_log [''1'']) [''p'']) ''p'') = ''XHR''
   \<and> ReqStackScripts (AnalyzePolicy (example_client (probe_log [''1'']) [''p'']) ''p'') = [''2'']"
  by code_simp


lemma crossFrames_result:
  "crossFrames ps cfv (b, acc) =
     (b \<and> StackIsTrusted ps (map CallFrame.ScriptId cfv), acc @ map CallFrame.ScriptId cfv)"
proof (induction cfv arbitrary: b acc)
  case Nil
  show ?case by simp
next
  case (Cons cf cfv)
  show ?case
    by (cases "TrustGroupStateForScriptId ps (CallFrame.ScriptId cf)")
       (auto simp: Cons.IH)
qed

lemma crossLoop_skip:
  "\<not> crossViolation cc apiLogs taintId (exf, pa) q \<Longrightarrow>
   crossLoop cc apiLogs taintId (q # pids) (exf, pa) = crossLoop cc apiLogs taintId pids (exf, pa)"
  by (auto simp: crossViolation_def crossFrames_result split: list.splits option.splits)

lemma crossLoop_hit:
  "crossViolation cc apiLogs taintId (exf, pa) q \<Longrightarrow>
   NetworkRequestWillBeSentLogs cc q = e # others \<Longrightarrow>
   Initiator e = Some ini \<Longrightarrow> Initiator.StackTrace ini = Some st \<Longrightarrow>
   crossLoop cc apiLogs taintId (q # pids) (exf, pa) =
     (NetworkRequestWillBeSentEvent.EventId e,
      pa\<lparr>PolicyViolated := True,
         ReqResourceType := NetworkRequestWillBeSentEvent.ResourceType e,
         ReqInitiator := Initiator.Type ini,
         ReqURL := NetworkRequest.URL (NetworkRequestWillBeSentEvent.Request e),
         ReqStackScripts := map CallFrame.ScriptId (initiatorFrames st)\<rparr>)"
  by (auto simp: crossViolation_def crossFrames_result)

lemma crossLoop_none:
  "\<forall>x\<in>set pids. \<not> crossViolation cc apiLogs taintId (exf, pa) x \<Longrightarrow>
   crossLoop cc apiLogs taintId pids (exf, pa) = (exf, pa)"
  by (induction pids) (simp_all add: crossLoop_skip del: crossLoop.simps(2))

lemma crossLoop_first:
  "\<forall>x\<in>set pre. \<not> crossViolation cc apiLogs taintId (exf, pa) x \<Longrightarrow>
   crossLoop cc apiLogs taintId (pre @ pids) (exf, pa) =
   crossLoop cc apiLogs taintId pids (exf, pa)"
  by (induction pre) (simp_all add: crossLoop_skip del: crossLoop.simps(2))


text \<open>
  C4, as amended. The cross-target check goes through the policy ids in the order of
  the list and stops at the first one whose first request qualifies: it has an
  initiator with a stack trace, an event id above the tainting event's, no violation
  found yet or an event id below the violation's, and a stack that \<open>StackIsTrusted\<close>
  rejects in the state embedded in the last access event of the analysed policy. When
  that policy is another one than the analysed policy, its first request replaces the
  result; policy ids after it are not looked at. When no policy id qualifies, the
  result is unchanged.
\<close>

theorem cross_target_check_first_in_list_order:
  "(policyIds cc = pre @ q # post \<and> q \<noteq> pid
      \<and> (\<forall>x\<in>set pre. \<not> crossViolation cc (APIAccessLogs cc pid) taintId (exf, pa) x)
      \<and> crossViolation cc (APIAccessLogs cc pid) taintId (exf, pa) q
      \<and> NetworkRequestWillBeSentLogs cc q = e # others
      \<and> Initiator e = Some ini \<and> Initiator.StackTrace ini = Some st
    \<longrightarrow> crossLoop cc (APIAccessLogs cc pid) taintId (policyIds cc) (exf, pa) =
          (NetworkRequestWillBeSentEvent.EventId e,
           pa\<lparr>PolicyViolated := True,
              ReqResourceType := NetworkRequestWillBeSentEvent.ResourceType e,
              ReqInitiator := Initiator.Type ini,
              ReqURL := NetworkRequest.URL (NetworkRequestWillBeSentEvent.Request e),
              ReqStackScripts := map CallFrame.ScriptId (initiatorFrames st)\<rparr>))
   \<and> ((\<forall>x\<in>set (policyIds cc). \<not> crossViolation cc (APIAccessLogs cc pid) taintId (exf, pa) x)
    \<longrightarrow> crossLoop cc (APIAccessLogs cc pid) taintId (policyIds cc) (exf, pa) = (exf, pa))"
  using crossLoop_first [of pre cc "APIAccessLogs cc pid" taintId exf pa "q # post"]
    crossLoop_hit [of cc "APIAccessLogs cc pid" taintId exf pa q e others ini st post]
    crossLoop_none [of "policyIds cc" cc "APIAccessLogs cc pid" taintId exf pa]
  by auto

theorem cross_target_check_first_in_list_order_witness:
  "crossLoop (example_client popup_log [''p'', ''q1'', ''q2''])
     (APIAccessLogs (example_client popup_log [''p'', ''q1'', ''q2'']) ''p'') 1
     (policyIds (example_client popup_log [''p'', ''q1'', ''q2''])) (0, emptyAnalysis ''p'') =
   (3, (emptyAnalysis ''p'')
         \<lparr>PolicyViolated := True, ReqResourceType := ''XHR'', ReqInitiator := ''script'',
          ReqURL := ''https://first.example/'', ReqStackScripts := [''2'']\<rparr>)"
proof -
  let ?cc = "example_client popup_log [''p'', ''q1'', ''q2'']"
  let ?st = "MkStackTrace [] [example_frame ''2''] None []"
  let ?ini = "\<lparr>Type = ''script'', StackTrace = Some ?st, URL = [], LineNumber = 0\<rparr>"
  let ?e = "example_presend 3 ''q1'' (example_initiator [example_frame ''2''])
              ''https://first.example/''"
  have h: "policyIds ?cc = [''p''] @ ''q1'' # [''q2''] \<and> ''q1'' \<noteq> ''p''
           \<and> (\<forall>x\<in>set [''p'']. \<not> crossViolation ?cc (APIAccessLogs ?cc ''p'') 1
                                     (0, emptyAnalysis ''p'') x)
           \<and> crossViolation ?cc (APIAccessLogs ?cc ''p'') 1 (0, emptyAnalysis ''p'') ''q1''
           \<and> NetworkRequestWillBeSentLogs ?cc ''q1'' = ?e # []
           \<and> Initiator ?e = Some ?ini \<and> Initiator.StackTrace ?ini = Some ?st"
    by code_simp
  from h cross_target_check_first_in_list_order
         [of ?cc "[''p'']" "''q1''" "[''q2'']" "''p''" 1 0 "emptyAnalysis ''p''" ?e "[]" ?ini ?st]
  have "crossLoop ?cc (APIAccessLogs ?cc ''p'') 1 (policyIds ?cc) (0, emptyAnalysis ''p'') =
          (NetworkRequestWillBeSentEvent.EventId ?e,
           (emptyAnalysis ''p'')
             \<lparr>PolicyViolated := True,
              ReqResourceType := NetworkRequestWillBeSentEvent.ResourceType ?e,
              ReqInitiator := Initiator.Type ?ini,
              ReqURL := NetworkRequest.URL (NetworkRequestWillBeSentEvent.Request ?e),
              ReqStackScripts := map CallFrame.ScriptId (initiatorFrames ?st)\<rparr>)"
    by blast
  then show ?thesis
    by (simp add: example_presend_def example_frame_def initiatorFrames_def)
qed


text \<open>
  The claim as stated fails: in \<open>popup_log\<close>, with the policy ids in the order
  \<open>p, q1, q2\<close>, the first request of \<open>q1\<close> (event 3) replaces the result and ends
  the loop. The first request of \<open>q2\<close> (event 2) comes after the tainting event 1,
  is earlier than the violation found, and has an untrusted stack, yet the analysis
  reports the request of \<open>q1\<close>.
\<close>

theorem cross_target_check_later_policy_counterexample:
  "ReqURL (AnalyzePolicy (example_client popup_log [''p'', ''q1'', ''q2'']) ''p'')
     = ''https://first.example/''
   \<and> taintingLoop (APIAccessLogs (example_client popup_log [''p'', ''q1'', ''q2'']) ''p'') =
       Some (example_access 1 ''p'' ''cookie'' [''2''])
   \<and> NetworkRequestWillBeSentLogs (example_client popup_log [''p'', ''q1'', ''q2'']) ''q1'' =
       [example_presend 3 ''q1'' (example_initiator [example_frame ''2'']) ''https://first.example/'']
   \<and> NetworkRequestWillBeSentLogs (example_client popup_log [''p'', ''q1'', ''q2'']) ''q2'' =
       [example_presend 2 ''q2'' (example_initiator [example_frame ''2'']) ''https://second.example/'']
   \<and> \<not> StackIsTrusted example_state (map CallFrame.ScriptId [example_frame ''2''])"
  by code_simp

text \<open>
  The loop ranges over every policy id of the client and has no test that skips the
  analysed one: in \<open>own_first_request_log\<close> the primary check and the probe check
  find nothing, and the cross-target check reports the first request of the analysed
  policy itself.
\<close>

lemma cross_target_check_reads_own_policy:
  "taintingLoop (APIAccessLogs (example_client own_first_request_log [''p'']) ''p'') =
     Some (example_access 0 ''p'' ''cookie'' [''2''])
   \<and> \<not> PolicyViolated
         (snd (probeLoop 0 (APIAccessLogs (example_client own_first_request_log [''p'']) ''p'')
            (primaryLoop 0
               (NetworkRequestWillBeSentLogs (example_client own_first_request_log [''p'']) ''p'')
               (0, emptyAnalysis ''p''))))
   \<and> PolicyViolated (AnalyzePolicy (example_client own_first_request_log [''p'']) ''p'')
   \<and> ReqURL (AnalyzePolicy (example_client own_first_request_log [''p'']) ''p'')
       = ''https://b.example/get''"
  by code_simp

section \<open>Properties of script registration\<close>

lemma stackLoop_skip:
  "\<not> inheritingFrame p cf \<Longrightarrow> stackLoop p (cf # cfs) = stackLoop p cfs"
  by (auto simp: inheritingFrame_def split: option.splits)

lemma stackLoop_hit:
  "TrustGroupForScriptId p (CallFrame.ScriptId cf) = Some i \<Longrightarrow>
   \<not> TrustGroup.Trusted (trustGroups p ! i) \<Longrightarrow> stackLoop p (cf # cfs) = Some i"
  by simp

lemma stackLoop_none:
  "\<forall>x\<in>set cfs. \<not> inheritingFrame p x \<Longrightarrow> stackLoop p cfs = None"
  by (induction cfs) (simp_all add: stackLoop_skip del: stackLoop.simps(2))

lemma stackLoop_first:
  "\<forall>x\<in>set pre. \<not> inheritingFrame p x \<Longrightarrow> stackLoop p (pre @ cfs) = stackLoop p cfs"
  by (induction pre) (simp_all add: stackLoop_skip del: stackLoop.simps(2))

lemma acceptingLoop_first:
  "\<forall>h\<in>set pre. \<not> contains (TrustGroup.ScriptSet h) \<Longrightarrow> contains (TrustGroup.ScriptSet g) \<Longrightarrow>
   acceptingLoop contains (pre @ g # post) = Some (length pre)"
  by (induction pre) simp_all

lemma acceptingLoop_none:
  "\<forall>h\<in>set gs. \<not> contains (TrustGroup.ScriptSet h) \<Longrightarrow> acceptingLoop contains gs = None"
  by (induction gs) simp_all


text \<open>
  C5, as amended. For \<open>RegisterRemoteScript\<close> and \<open>RegisterInlineScript\<close> with a
  stack trace: when some frame of the trace's own call frames has a script id
  registered in a group with \<open>Trusted = false\<close>, the new script is added to the
  group of the first such frame and that group is returned, whatever the membership
  tests say; the frames of the async parent of the trace are not read. Otherwise, and
  with no stack trace, the first group in policy order whose \<open>ContainsRemoteScript\<close>
  or \<open>ContainsInlineScript\<close> accepts gets the script and is returned. When no group
  accepts, \<open>nil\<close> is returned and the policy is unchanged, so that
  \<open>TrustGroupForScriptId\<close> answers for the script id as it did before.
\<close>

theorem register_script:
  "(st = Some s \<and> CallFrames s = pre @ cf # post
      \<and> (\<forall>x\<in>set pre. \<not> inheritingFrame p x)
      \<and> TrustGroupForScriptId p (CallFrame.ScriptId cf) = Some i
      \<and> \<not> TrustGroup.Trusted (trustGroups p ! i)
    \<longrightarrow> RegisterRemoteScript parse matcher p scriptId scriptURL st
            = (Some i, addRemoteAt p i scriptId scriptURL)
        \<and> RegisterInlineScript p scriptId hash st = (Some i, addInlineAt p i scriptId hash))
   \<and> ((st = None \<or> (st = Some s \<and> (\<forall>x\<in>set (CallFrames s). \<not> inheritingFrame p x)))
      \<and> trustGroups p = gpre @ g # gpost
      \<and> (\<forall>h\<in>set gpre.
            \<not> ContainsRemoteScript parse matcher (TrustGroup.ScriptSet h) scriptId scriptURL)
      \<and> ContainsRemoteScript parse matcher (TrustGroup.ScriptSet g) scriptId scriptURL
    \<longrightarrow> RegisterRemoteScript parse matcher p scriptId scriptURL st
            = (Some (length gpre), addRemoteAt p (length gpre) scriptId scriptURL))
   \<and> ((st = None \<or> (st = Some s \<and> (\<forall>x\<in>set (CallFrames s). \<not> inheritingFrame p x)))
      \<and> trustGroups p = gpre @ g # gpost
      \<and> (\<forall>h\<in>set gpre. \<not> ContainsInlineScript (TrustGroup.ScriptSet h) scriptId hash)
      \<and> ContainsInlineScript (TrustGroup.ScriptSet g) scriptId hash
    \<longrightarrow> RegisterInlineScript p scriptId hash st
            = (Some (length gpre), addInlineAt p (length gpre) scriptId hash))
   \<and> ((st = None \<or> (st = Some s \<and> (\<forall>x\<in>set (CallFrames s). \<not> inheritingFrame p x)))
      \<and> (\<forall>h\<in>set (trustGroups p).
            \<not> ContainsRemoteScript parse matcher (TrustGroup.ScriptSet h) scriptId scriptURL)
    \<longrightarrow> RegisterRemoteScript parse matcher p scriptId scriptURL st = (None, p))
   \<and> ((st = None \<or> (st = Some s \<and> (\<forall>x\<in>set (CallFrames s). \<not> inheritingFrame p x)))
      \<and> (\<forall>h\<in>set (trustGroups p). \<not> ContainsInlineScript (TrustGroup.ScriptSet h) scriptId hash)
    \<longrightarrow> RegisterInlineScript p scriptId hash st = (None, p))"
proof -
  have inherit: "stackGroup p st = Some i"
    if "st = Some s" "CallFrames s = pre @ cf # post" "\<forall>x\<in>set pre. \<not> inheritingFrame p x"
       "TrustGroupForScriptId p (CallFrame.ScriptId cf) = Some i"
       "\<not> TrustGroup.Trusted (trustGroups p ! i)"
    using that stackLoop_first [of pre p "cf # post"] stackLoop_hit [of p cf i post]
    by (simp add: stackGroup_def)
  have none: "stackGroup p st = None"
    if "st = None \<or> (st = Some s \<and> (\<forall>x\<in>set (CallFrames s). \<not> inheritingFrame p x))"
    using that stackLoop_none [of "CallFrames s" p] by (auto simp: stackGroup_def)
  show ?thesis
    using inherit none
      acceptingLoop_first [of gpre "\<lambda>ss. ContainsRemoteScript parse matcher ss scriptId scriptURL" g gpost]
      acceptingLoop_first [of gpre "\<lambda>ss. ContainsInlineScript ss scriptId hash" g gpost]
      acceptingLoop_none [of "trustGroups p" "\<lambda>ss. ContainsRemoteScript parse matcher ss scriptId scriptURL"]
      acceptingLoop_none [of "trustGroups p" "\<lambda>ss. ContainsInlineScript ss scriptId hash"]
    by (simp add: RegisterRemoteScript_def RegisterInlineScript_def)
qed

theorem register_script_witness:
  "RegisterRemoteScript example_parse (\<lambda>u. None) example_policy ''3'' ''https://a.example/x.js''
     (Some (MkStackTrace [] [example_frame ''7'', example_frame ''2''] None []))
   = (Some 1, addRemoteAt example_policy 1 ''3'' ''https://a.example/x.js'')
   \<and> RegisterInlineScript example_policy ''3'' ''h3''
     (Some (MkStackTrace [] [example_frame ''7'', example_frame ''2''] None []))
   = (Some 1, addInlineAt example_policy 1 ''3'' ''h3'')"
proof -
  let ?s = "MkStackTrace [] [example_frame ''7'', example_frame ''2''] None []"
  have h: "Some ?s = Some ?s \<and> CallFrames ?s = [example_frame ''7''] @ example_frame ''2'' # []
      \<and> (\<forall>x\<in>set [example_frame ''7'']. \<not> inheritingFrame example_policy x)
      \<and> TrustGroupForScriptId example_policy (CallFrame.ScriptId (example_frame ''2'')) = Some 1
      \<and> \<not> TrustGroup.Trusted (trustGroups example_policy ! 1)"
    by code_simp
  from h register_script
         [of "Some ?s" ?s "[example_frame ''7'']" "example_frame ''2''" "[]" example_policy 1
             example_parse "\<lambda>u. None" "''3''" "''https://a.example/x.js''" "''h3''"]
  show ?thesis by blast
qed


text \<open>
  The claim as stated fails for a frame of an async parent: the inline script \<open>2\<close>
  is registered in the untrusted group 1 and is the only frame of the parent of the
  stack trace, whose own frame list is empty; the new inline script goes to the
  trusted group 0.
\<close>

theorem register_script_async_parent_counterexample:
  "TrustGroupForScriptId example_policy ''2'' = Some 1
   \<and> \<not> TrustGroup.Trusted (trustGroups example_policy ! 1)
   \<and> fst (RegisterInlineScript example_policy ''3'' ''h3''
            (Some (MkStackTrace [] []
                     (Some (MkStackTrace [] [example_frame ''2''] None [])) []))) = Some 0
   \<and> TrustGroup.Trusted (trustGroups example_policy ! 0)"
  by code_simp


lemma hostnameLoop_set: "hostnameLoop hosts origin \<longleftrightarrow> origin \<in> set hosts"
  by (induction hosts) auto


lemma TrustGroupForScriptId_loop_bound:
  "TrustGroupForScriptId_loop gs sid = Some i \<Longrightarrow> i < length gs"
  by (induction gs arbitrary: i) (auto split: if_splits)

lemma stackLoop_bound: "stackLoop p cfs = Some i \<Longrightarrow> i < length (trustGroups p)"
  by (induction cfs)
     (auto simp: TrustGroupForScriptId_def split: option.splits if_splits
           dest: TrustGroupForScriptId_loop_bound)

lemma stackGroup_bound: "stackGroup p st = Some i \<Longrightarrow> i < length (trustGroups p)"
  by (auto simp: stackGroup_def split: option.splits dest: stackLoop_bound)

lemma acceptingLoop_bound: "acceptingLoop contains gs = Some i \<Longrightarrow> i < length gs"
  by (induction gs arbitrary: i) (auto split: if_splits)

lemma hostname_shape_preserved:
  assumes shape:
    "trustGroups p =
       [\<lparr>TrustGroup.ScriptSet = HostnameScriptSet hosts rs1 is1, Trusted = True, Tainted = t1\<rparr>,
        \<lparr>TrustGroup.ScriptSet = UniversalScriptSet rs2 is2, Trusted = False, Tainted = t2\<rparr>]"
  shows "\<exists>rs1' is1' rs2' is2'.
           trustGroups (snd (RegisterRemoteScript parse matcher p scriptId scriptURL st)) =
             [\<lparr>TrustGroup.ScriptSet = HostnameScriptSet hosts rs1' is1', Trusted = True,
               Tainted = t1\<rparr>,
              \<lparr>TrustGroup.ScriptSet = UniversalScriptSet rs2' is2', Trusted = False,
               Tainted = t2\<rparr>]"
    and "\<exists>rs1' is1' rs2' is2'.
           trustGroups (snd (RegisterInlineScript p scriptId hash st)) =
             [\<lparr>TrustGroup.ScriptSet = HostnameScriptSet hosts rs1' is1', Trusted = True,
               Tainted = t1\<rparr>,
              \<lparr>TrustGroup.ScriptSet = UniversalScriptSet rs2' is2', Trusted = False,
               Tainted = t2\<rparr>]"
proof -
  have r: "\<exists>rs1' is1' rs2' is2'. trustGroups (addRemoteAt p i scriptId scriptURL) =
             [\<lparr>TrustGroup.ScriptSet = HostnameScriptSet hosts rs1' is1', Trusted = True,
               Tainted = t1\<rparr>,
              \<lparr>TrustGroup.ScriptSet = UniversalScriptSet rs2' is2', Trusted = False,
               Tainted = t2\<rparr>]" if "i < 2" for i
    using that shape by (cases "i = 0") (auto simp: addRemoteAt_def less_2_cases_iff)
  have l: "\<exists>rs1' is1' rs2' is2'. trustGroups (addInlineAt p i scriptId hash) =
             [\<lparr>TrustGroup.ScriptSet = HostnameScriptSet hosts rs1' is1', Trusted = True,
               Tainted = t1\<rparr>,
              \<lparr>TrustGroup.ScriptSet = UniversalScriptSet rs2' is2', Trusted = False,
               Tainted = t2\<rparr>]" if "i < 2" for i
    using that shape by (cases "i = 0") (auto simp: addInlineAt_def less_2_cases_iff)
  have two: "length (trustGroups p) = 2" using shape by simp
  show "\<exists>rs1' is1' rs2' is2'.
           trustGroups (snd (RegisterRemoteScript parse matcher p scriptId scriptURL st)) =
             [\<lparr>TrustGroup.ScriptSet = HostnameScriptSet hosts rs1' is1', Trusted = True,
               Tainted = t1\<rparr>,
              \<lparr>TrustGroup.ScriptSet = UniversalScriptSet rs2' is2', Trusted = False,
               Tainted = t2\<rparr>]"
    using r stackGroup_bound [of p st] two shape
      acceptingLoop_bound [of "\<lambda>ss. ContainsRemoteScript parse matcher ss scriptId scriptURL"
                             "trustGroups p"]
    by (auto simp: RegisterRemoteScript_def split: option.splits simp del: acceptingLoop.simps)
  show "\<exists>rs1' is1' rs2' is2'.
           trustGroups (snd (RegisterInlineScript p scriptId hash st)) =
             [\<lparr>TrustGroup.ScriptSet = HostnameScriptSet hosts rs1' is1', Trusted = True,
               Tainted = t1\<rparr>,
              \<lparr>TrustGroup.ScriptSet = UniversalScriptSet rs2' is2', Trusted = False,
               Tainted = t2\<rparr>]"
    using l stackGroup_bound [of p st] two shape
      acceptingLoop_bound [of "\<lambda>ss. ContainsInlineScript ss scriptId hash" "trustGroups p"]
    by (auto simp: RegisterInlineScript_def split: option.splits simp del: acceptingLoop.simps)
qed

text \<open>
  C6. In a hostname policy (a trusted group on a \<open>HostnameScriptSet\<close> followed by
  an untrusted group on a \<open>UniversalScriptSet\<close>, whatever scripts they hold), a
  remote script that inherits no group from its stack is put in the trusted group
  exactly when its URL parses and its \<open>scheme://host\<close> is one of the configured
  origins, and in the untrusted group otherwise. The hostname set accepts every
  inline script, so an inline script that inherits no group is put in the trusted
  group. Registrations keep the policy in this shape (\<open>hostname_shape_preserved\<close>).
\<close>

theorem hostname_policy_registration:
  assumes shape:
    "trustGroups p =
       [\<lparr>TrustGroup.ScriptSet = HostnameScriptSet hosts rs1 is1, Trusted = True, Tainted = t1\<rparr>,
        \<lparr>TrustGroup.ScriptSet = UniversalScriptSet rs2 is2, Trusted = False, Tainted = t2\<rparr>]"
    and stack: "stackGroup p st = None"
  shows "RegisterRemoteScript parse matcher p scriptId scriptURL st =
           (if \<exists>u. parse scriptURL = Some u \<and> Scheme u @ ''://'' @ Host u \<in> set hosts
            then (Some 0, addRemoteAt p 0 scriptId scriptURL)
            else (Some 1, addRemoteAt p 1 scriptId scriptURL))
         \<and> ContainsInlineScript (HostnameScriptSet hosts rs1 is1) scriptId hash
         \<and> RegisterInlineScript p scriptId hash st = (Some 0, addInlineAt p 0 scriptId hash)"
proof -
  have remote: "ContainsRemoteScript parse matcher (HostnameScriptSet hosts rs1 is1) scriptId scriptURL
          \<longleftrightarrow> (\<exists>u. parse scriptURL = Some u \<and> Scheme u @ ''://'' @ Host u \<in> set hosts)"
    by (cases "parse scriptURL") (simp_all add: hostnameLoop_set)
  show ?thesis
  proof (cases "\<exists>u. parse scriptURL = Some u \<and> Scheme u @ ''://'' @ Host u \<in> set hosts")
    case True
    with remote have "ContainsRemoteScript parse matcher (HostnameScriptSet hosts rs1 is1) scriptId scriptURL"
      by blast
    with True show ?thesis
      using shape stack
      by (simp add: RegisterRemoteScript_def RegisterInlineScript_def
            del: ContainsRemoteScript.simps)
  next
    case False
    with remote have "\<not> ContainsRemoteScript parse matcher (HostnameScriptSet hosts rs1 is1) scriptId scriptURL"
      by blast
    with False show ?thesis
      using shape stack
      by (simp add: RegisterRemoteScript_def RegisterInlineScript_def
            del: ContainsRemoteScript.simps(2))
  qed
qed


theorem hostname_policy_registration_witness:
  "RegisterRemoteScript example_parse (\<lambda>u. None) (NewHostnamePolicy ''p'' [''https://a.example''])
     ''3'' ''https://a.example/x.js'' None
   = (Some 0, addRemoteAt (NewHostnamePolicy ''p'' [''https://a.example'']) 0 ''3''
                ''https://a.example/x.js'')
   \<and> RegisterRemoteScript example_parse (\<lambda>u. None) example_policy
     ''4'' ''https://b.example/y.js'' (Some (MkStackTrace [] [example_frame ''7''] None []))
   = (Some 1, addRemoteAt example_policy 1 ''4'' ''https://b.example/y.js'')
   \<and> RegisterInlineScript example_policy ''5'' ''h5'' None
   = (Some 0, addInlineAt example_policy 0 ''5'' ''h5'')"
proof -
  let ?p = "NewHostnamePolicy ''p'' [''https://a.example'']"
  let ?st = "Some (MkStackTrace [] [example_frame ''7''] None [])"
  have s1: "trustGroups ?p =
       [\<lparr>TrustGroup.ScriptSet = HostnameScriptSet [''https://a.example''] [] [],
         Trusted = True, Tainted = False\<rparr>,
        \<lparr>TrustGroup.ScriptSet = UniversalScriptSet [] [], Trusted = False, Tainted = False\<rparr>]"
    by (simp add: NewHostnamePolicy_def)
  have g1: "stackGroup ?p None = None" by (simp add: stackGroup_def)
  have s2: "trustGroups example_policy =
       [\<lparr>TrustGroup.ScriptSet = HostnameScriptSet [''https://a.example''] [] [],
         Trusted = True, Tainted = False\<rparr>,
        \<lparr>TrustGroup.ScriptSet =
            UniversalScriptSet [] [\<lparr>InlineScript.ScriptId = ''2'', Hash = ''h''\<rparr>],
         Trusted = False, Tainted = False\<rparr>]"
    by (simp add: example_policy_def)
  have g2: "stackGroup example_policy ?st = None" by code_simp
  have g3: "stackGroup example_policy None = None" by (simp add: stackGroup_def)
  have a: "\<exists>u. example_parse ''https://a.example/x.js'' = Some u
               \<and> Scheme u @ ''://'' @ Host u \<in> set [''https://a.example'']"
    by (simp add: example_parse_def)
  have b: "\<not> (\<exists>u. example_parse ''https://b.example/y.js'' = Some u
               \<and> Scheme u @ ''://'' @ Host u \<in> set [''https://a.example''])"
    by (simp add: example_parse_def)
  from hostname_policy_registration [OF s1 g1, of example_parse "\<lambda>u. None" "''3''"
         "''https://a.example/x.js''" "''h''"] a
  have r1: "RegisterRemoteScript example_parse (\<lambda>u. None) ?p ''3'' ''https://a.example/x.js'' None
     = (Some 0, addRemoteAt ?p 0 ''3'' ''https://a.example/x.js'')"
    by (simp only: if_True) 
  from hostname_policy_registration [OF s2 g2, of example_parse "\<lambda>u. None" "''4''"
         "''https://b.example/y.js''" "''h''"] b
  have r2: "RegisterRemoteScript example_parse (\<lambda>u. None) example_policy
     ''4'' ''https://b.example/y.js'' ?st
     = (Some 1, addRemoteAt example_policy 1 ''4'' ''https://b.example/y.js'')"
    by (simp only: if_False)
  from hostname_policy_registration [OF s2 g3, of example_parse "\<lambda>u. None" "''5''"
         "''https://b.example/y.js''" "''h5''"]
  have r3: "RegisterInlineScript example_policy ''5'' ''h5'' None
     = (Some 0, addInlineAt example_policy 0 ''5'' ''h5'')"
    by blast
  from r1 r2 r3 show ?thesis by blast
qed

section \<open>Properties of the pause handler\<close>

lemma installInstrumentation_sent:
  "installInstrumentation browser s = Inl (f, s') \<or> installInstrumentation browser s = Inr s' \<Longrightarrow>
   (\<exists>ms. sent s' = sent s @ ms \<and> ''Debugger.resume'' \<notin> set ms)"
  by (auto simp: installInstrumentation_def SendRequest_def split: if_splits option.splits)

lemma installInstrumentation_fault:
  "installInstrumentation browser s = Inl (f, s') \<Longrightarrow> f = LogPanic"
  by (auto simp: installInstrumentation_def split: if_splits option.splits)

lemma scriptIds_loop_length:
  "scriptIds_loop callFrames acc = Inr scriptIds \<Longrightarrow>
   length scriptIds = length acc + length callFrames"
  by (induction callFrames arbitrary: acc) (auto split: sum.splits)

lemma scriptIds_loop_fault:
  "scriptIds_loop callFrames acc = Inl f \<Longrightarrow> f = TypeAssertion"
  by (induction callFrames arbitrary: acc)
     (auto simp: Message_Message_def split: sum.splits option.splits jvalue.splits)

lemma Messages_loop_fault: "Messages_loop xv mv = Inl f \<Longrightarrow> f = TypeAssertion"
  by (induction xv mv rule: Messages_loop.induct) auto

lemma Message_Messages_fault: "Message_Messages p k = Inl f \<Longrightarrow> f = TypeAssertion"
  by (auto simp: Message_Messages_def Messages_loop_fault split: option.splits jvalue.splits)

lemma LogEvent_APIAccess: "LogEvent cc (APIAccess e) \<noteq> Inl f"
  by (simp add: LogEvent_def)

lemma classifyPause_index:
  "classifyPause browser now s p callFrames scriptIds = Inl (IndexOutOfRange, s') \<Longrightarrow>
   length scriptIds = length callFrames \<Longrightarrow>
   callFrames = [] \<and> Message_String p ''reason'' \<noteq> ''EventListener''"
  by (auto simp: classifyPause_def Message_Message_def LogEvent_def
           split: if_splits sum.splits option.splits list.splits jvalue.splits)

lemma debuggerPaused_empty:
  assumes "Message_Messages p ''callFrames'' = Inr []"
    and "Message_String p ''reason'' \<noteq> ''EventListener''"
  shows "debuggerPaused browser now s p =
           (case installInstrumentation browser s of
              Inl stopped \<Rightarrow> Inl stopped
            | Inr s1 \<Rightarrow> Inl (IndexOutOfRange, s1))"
  using assms by (simp add: debuggerPaused_def classifyPause_def split: sum.splits)

lemma debuggerPaused_index:
  assumes "debuggerPaused browser now s p = Inl (IndexOutOfRange, s')"
  shows "Message_Messages p ''callFrames'' = Inr []
         \<and> Message_String p ''reason'' \<noteq> ''EventListener''"
proof (cases "Message_Messages p ''callFrames''")
  case (Inl f)
  with assms Message_Messages_fault [OF Inl] show ?thesis
    by (simp add: debuggerPaused_def)
next
  case (Inr callFrames)
  show ?thesis
  proof (cases "scriptIds_loop callFrames []")
    case (Inl f)
    with assms Inr scriptIds_loop_fault [OF Inl] show ?thesis
      by (simp add: debuggerPaused_def)
  next
    case ids: (Inr scriptIds)
    have len: "length scriptIds = length callFrames"
      using scriptIds_loop_length [OF ids] by simp
    show ?thesis
    proof (cases "installInstrumentation browser s")
      case (Inl stopped)
      obtain f s0 where "stopped = (f, s0)" by (cases stopped)
      with assms Inr ids Inl installInstrumentation_fault [of browser s f s0] show ?thesis
        by (simp add: debuggerPaused_def)
    next
      case s1: (Inr s1)
      show ?thesis
      proof (cases "classifyPause browser now s1 p callFrames scriptIds")
        case (Inl stopped)
        with assms Inr ids s1 have "classifyPause browser now s1 p callFrames scriptIds
                                      = Inl (IndexOutOfRange, s')"
          by (simp add: debuggerPaused_def)
        from classifyPause_index [OF this len] Inr show ?thesis by simp
      next
        case s2: (Inr s2)
        with assms Inr ids s1 show ?thesis
          by (simp add: debuggerPaused_def split: option.splits)
      qed
    qed
  qed
qed


text \<open>
  C10. On a pause notification with no call frames and a reason other than
  \<open>EventListener\<close>, \<open>debuggerPaused\<close> does not return: once
  \<open>installInstrumentation\<close> is through, reading \<open>scriptIds[0]\<close> is out of range,
  and no \<open>Debugger.resume\<close> request has been sent by then. Conversely the handler
  stops with an index out of range on such a notification only, so it is free of that
  fault when every notification with another reason carries a call frame.
\<close>

theorem debuggerPaused_faults_on_empty_callFrames:
  "(Message_Messages p ''callFrames'' = Inr [] \<and> Message_String p ''reason'' \<noteq> ''EventListener''
    \<longrightarrow> debuggerPaused browser now s p =
           (case installInstrumentation browser s of
              Inl stopped \<Rightarrow> Inl stopped
            | Inr s1 \<Rightarrow> Inl (IndexOutOfRange, s1))
        \<and> (\<exists>f s1 ms. debuggerPaused browser now s p = Inl (f, s1)
               \<and> sent s1 = sent s @ ms \<and> ''Debugger.resume'' \<notin> set ms))
   \<and> (debuggerPaused browser now s p = Inl (IndexOutOfRange, s')
    \<longrightarrow> Message_Messages p ''callFrames'' = Inr []
        \<and> Message_String p ''reason'' \<noteq> ''EventListener'')"
proof -
  have a: "\<exists>f s1 ms. debuggerPaused browser now s p = Inl (f, s1)
               \<and> sent s1 = sent s @ ms \<and> ''Debugger.resume'' \<notin> set ms"
    if h: "Message_Messages p ''callFrames'' = Inr []"
          "Message_String p ''reason'' \<noteq> ''EventListener''"
  proof (cases "installInstrumentation browser s")
    case (Inl stopped)
    obtain f s0 where st: "stopped = (f, s0)" by (cases stopped)
    from installInstrumentation_sent [of browser s f s0] Inl st
    obtain ms where "sent s0 = sent s @ ms" "''Debugger.resume'' \<notin> set ms" by blast
    with debuggerPaused_empty [OF h, of browser now s] Inl st show ?thesis by auto
  next
    case (Inr s1)
    from installInstrumentation_sent [of browser s LogPanic s1] Inr
    obtain ms where "sent s1 = sent s @ ms" "''Debugger.resume'' \<notin> set ms" by blast
    with debuggerPaused_empty [OF h, of browser now s] Inr show ?thesis by auto
  qed
  show ?thesis
    using a debuggerPaused_empty [of p browser now s] debuggerPaused_index [of browser now s p s']
    by blast
qed


theorem debuggerPaused_faults_on_empty_callFrames_witness:
  "Message_Messages example_pause ''callFrames'' = Inr []
   \<and> Message_String example_pause ''reason'' = ''other''
   \<and> debuggerPaused (\<lambda>method. Some []) 0 example_session example_pause
       = Inl (IndexOutOfRange, example_session)"
proof -
  have h: "Message_Messages example_pause ''callFrames'' = Inr []
           \<and> Message_String example_pause ''reason'' \<noteq> ''EventListener''"
    by (simp add: example_pause_def Message_Messages_def Message_String_def)
  have r: "Message_String example_pause ''reason'' = ''other''"
    by (simp add: example_pause_def Message_String_def)
  have i: "installInstrumentation (\<lambda>method. Some []) example_session = Inr example_session"
    by (simp add: installInstrumentation_def example_session_def)
  from h debuggerPaused_faults_on_empty_callFrames
         [of example_pause "\<lambda>method. Some []" 0 example_session example_session]
  have "debuggerPaused (\<lambda>method. Some []) 0 example_session example_pause =
           (case installInstrumentation (\<lambda>method. Some []) example_session of
              Inl stopped \<Rightarrow> Inl stopped
            | Inr s1 \<Rightarrow> Inl (IndexOutOfRange, s1))"
    by blast
  with i h r show ?thesis by simp
qed

end
